theory Spec2Isabelle
  imports Main "HOL-Library.Sublist"
begin

section \<open>JavaScript values, errors and the external interfaces\<close>

text \<open>
  The three admin widgets (customer notes, password restriction, product quicklinks) keep
  values that TypeScript types as \<open>any\<close> or \<open>unknown\<close>: the metadata bag of an entity is a
  \<open>Record<string, unknown>\<close>, and the result of \<open>JSON.parse\<close> is stored unchecked. The
  model therefore works on run-time values. \<open>jsval\<close> is the JSON-representable part of
  them; numbers are the integers (every number the widgets create is \<open>Date.now()\<close>), an
  object is the list of its properties in enumeration order, and the value \<open>undefined\<close>
  of an absent property is \<open>None\<close> of an option.
\<close>

datatype jsval =
    JNull
  | JBool bool
  | JNum int
  | JStr string
  | JArr "jsval list"
  | JObj "(string \<times> jsval) list"

datatype error =
    Rejection string  \<comment> \<open>a promise of the SDK rejected (transport, not found, validation)\<close>
  | TypeError         \<comment> \<open>a property read on \<open>undefined\<close> or \<open>null\<close>\<close>
  | SyntaxError       \<comment> \<open>thrown by \<open>JSON.parse\<close>\<close>
  | Error string      \<comment> \<open>\<open>new Error(message)\<close> thrown by the widget itself\<close>

type_synonym metadata = "string \<rightharpoonup> jsval"

text \<open>\<open>interface Customer { id: string; metadata?: Record<string, unknown> }\<close>\<close>

record Customer =
  customer_id :: string
  customer_metadata :: "metadata option"

text \<open>\<open>type Product = { id; title; handle; metadata?: Record<string, any> | null }\<close>\<close>

record Product =
  product_id :: string
  product_title :: string
  product_handle :: string
  product_metadata :: "metadata option"

text \<open>
  \<open>sdk.admin.customer\<close> and \<open>sdk.admin.product\<close> are not part of the repository. Each call
  is an awaited promise: it rejects (\<open>Inl\<close>) or resolves to a response object whose
  entity property (\<open>customer\<close>, \<open>product\<close>) is present (\<open>Inr (Some e)\<close>) or not
  (\<open>Inr None\<close>). The SDK is a parameter of every operation, so each result below holds for
  every behaviour of the remote system.
\<close>

record 'e sdk =
  retrieve :: "string \<Rightarrow> error + 'e option"
  update :: "string \<Rightarrow> metadata \<Rightarrow> error + 'e option"

text \<open>
  The builtins of the JavaScript run time that the widgets call are parameters too:
  \<open>JSON.parse\<close> (which throws or returns a value; its argument is whatever value the
  metadata field holds, since the cast \<open>as string\<close> checks nothing), \<open>JSON.stringify\<close>,
  \<open>Date.now()\<close> and \<open>new Date().toISOString()\<close>. The results that do not name a concrete
  run time hold for every behaviour of these builtins.
\<close>

record runtime =
  JSON_parse :: "jsval \<Rightarrow> error + jsval"
  JSON_stringify :: "jsval \<Rightarrow> string"
  Date_now :: int
  Date_toISOString :: string

text \<open>
  What an operation does is the list of its effects in program order. \<open>'u\<close> is the type
  of the widget's React state setters; a handler reads the state of the render it was
  created in, so a \<open>SetState\<close> never changes what the rest of the same call reads.
\<close>

datatype 'u event =
    Retrieve string                \<comment> \<open>\<open>sdk.admin.*.retrieve(id)\<close> was called\<close>
  | Update string metadata         \<comment> \<open>\<open>sdk.admin.*.update(id, {metadata})\<close> was called\<close>
  | Console_log string
  | Console_error string error
  | Alert string
  | SetState 'u
  | Uncaught error                 \<comment> \<open>the async handler's promise rejected\<close>

subsection \<open>Language primitives\<close>

text \<open>ToBoolean: \<open>null\<close>, \<open>false\<close>, \<open>0\<close> and the empty string are falsy.\<close>

fun truthy :: "jsval \<Rightarrow> bool" where
  "truthy JNull = False"
| "truthy (JBool b) = b"
| "truthy (JNum n) = (n \<noteq> 0)"
| "truthy (JStr s) = (s \<noteq> [])"
| "truthy (JArr xs) = True"
| "truthy (JObj kvs) = True"

text \<open>White space and line terminators among the characters below 256.\<close>

definition is_space :: "char \<Rightarrow> bool" where
  "is_space c = ((of_char c :: int) \<in> {9, 10, 11, 12, 13, 32, 160})"

definition trim :: "string \<Rightarrow> string" where
  "trim s = rev (dropWhile is_space (rev (dropWhile is_space s)))"

text \<open>Object spread \<open>{...m}\<close>: \<open>undefined\<close> and \<open>null\<close> contribute no property.\<close>

definition spread :: "metadata option \<Rightarrow> metadata" where
  "spread m = (case m of None \<Rightarrow> Map.empty | Some b \<Rightarrow> b)"

text \<open>
  \<open>note.id\<close>: a \<open>TypeError\<close> on \<open>null\<close>; the property of an object; \<open>undefined\<close> on
  every other value (no array, string, number or boolean has a property \<open>id\<close>).
\<close>

fun get_id :: "jsval \<Rightarrow> error + jsval option" where
  "get_id JNull = Inl TypeError"
| "get_id (JObj kvs) = Inr (map_of kvs ''id'')"
| "get_id v = Inr None"

text \<open>
  Defining a property of an object, as an object literal, a spread and \<open>JSON.parse\<close> do:
  an existing property keeps its place and takes the new value; a new property whose
  name is an array index (the decimal form, without a leading zero, of an integer
  below \<open>2^32 - 1\<close>) is
  enumerated with the other indices in ascending order, before every other name; any
  other new property is added last.
\<close>

definition is_digit :: "char \<Rightarrow> bool" where
  "is_digit c = (48 \<le> (of_char c :: int) \<and> (of_char c :: int) \<le> 57)"

definition digit_val :: "char \<Rightarrow> int" where
  "digit_val c = of_char c - 48"

definition int_of_digits :: "string \<Rightarrow> int" where
  "int_of_digits ds = foldl (\<lambda>n c. 10 * n + digit_val c) 0 ds"

definition is_index :: "string \<Rightarrow> bool" where
  "is_index k =
     (k \<noteq> [] \<and> list_all is_digit k \<and> (length k = 1 \<or> 0 < digit_val (hd k))
      \<and> int_of_digits k < 4294967295)"

fun insert_index :: "string \<Rightarrow> jsval \<Rightarrow> (string \<times> jsval) list \<Rightarrow> (string \<times> jsval) list" where
  "insert_index k v [] = [(k, v)]"
| "insert_index k v ((k', v') # kvs) =
     (if is_index k' \<and> int_of_digits k' < int_of_digits k
      then (k', v') # insert_index k v kvs
      else (k, v) # (k', v') # kvs)"

definition define_prop :: "string \<Rightarrow> jsval \<Rightarrow> (string \<times> jsval) list \<Rightarrow> (string \<times> jsval) list" where
  "define_prop k v kvs =
     (if k \<in> fst ` set kvs then map (\<lambda>(k', v'). if k' = k then (k', v) else (k', v')) kvs
      else if is_index k then insert_index k v kvs
      else kvs @ [(k, v)])"

text \<open>
  \<open>Array.prototype.filter\<close> and \<open>map\<close> with a callback that may throw: the elements are
  visited in order and the first exception ends the call.
\<close>

fun array_filter :: "('a \<Rightarrow> error + bool) \<Rightarrow> 'a list \<Rightarrow> error + 'a list" where
  "array_filter p [] = Inr []"
| "array_filter p (x # xs) =
     (case p x of
        Inl e \<Rightarrow> Inl e
      | Inr b \<Rightarrow>
          (case array_filter p xs of
             Inl e \<Rightarrow> Inl e
           | Inr ys \<Rightarrow> Inr (if b then x # ys else ys)))"

fun array_map :: "('a \<Rightarrow> error + 'b) \<Rightarrow> 'a list \<Rightarrow> error + 'b list" where
  "array_map f [] = Inr []"
| "array_map f (x # xs) =
     (case f x of
        Inl e \<Rightarrow> Inl e
      | Inr y \<Rightarrow>
          (case array_map f xs of
             Inl e \<Rightarrow> Inl e
           | Inr ys \<Rightarrow> Inr (y # ys)))"

section \<open>The customer notes widget\<close>

text \<open>
  \<open>type Note = { id: number; content: string; timestamp: string; createdBy: string;
  lastEdited?: string }\<close>, and the object a note is at run time: the properties in the order
  in which \<open>addNote\<close> writes them, \<open>lastEdited\<close> last and only when it is set.
\<close>

record Note =
  note_id :: int
  content :: string
  timestamp :: string
  createdBy :: string
  lastEdited :: "string option"

definition note_value :: "Note \<Rightarrow> jsval" where
  "note_value n =
     JObj ([(''id'', JNum (note_id n)), (''content'', JStr (content n)),
            (''timestamp'', JStr (timestamp n)), (''createdBy'', JStr (createdBy n))]
           @ (case lastEdited n of None \<Rightarrow> [] | Some t \<Rightarrow> [(''lastEdited'', JStr t)]))"

text \<open>
  \<open>useState\<close>: \<open>customer\<close> (initially \<open>null\<close>), \<open>notes\<close> (\<open>[]\<close>, here \<open>notes_list\<close>), \<open>newNote\<close> (\<open>""\<close>),
  \<open>editingIndex\<close> (\<open>null\<close>), \<open>isSaving\<close> (\<open>false\<close>).
\<close>

record notes_state =
  customer :: "Customer option"
  notes_list :: "jsval list"
  newNote :: string
  editingIndex :: "nat option"
  isSaving :: bool

datatype notes_set =
    SetCustomer "Customer option"
  | SetNotes "jsval list"
  | SetNewNote string
  | SetEditingIndex "nat option"
  | SetIsSaving bool

definition notes_initial :: notes_state where
  "notes_initial =
     \<lparr>customer = None, notes_list = [], newNote = [], editingIndex = None, isSaving = False\<rparr>"

fun notes_apply :: "notes_state \<Rightarrow> notes_set event \<Rightarrow> notes_state" where
  "notes_apply st (SetState (SetCustomer c)) = st\<lparr>customer := c\<rparr>"
| "notes_apply st (SetState (SetNotes ns)) = st\<lparr>notes_list := ns\<rparr>"
| "notes_apply st (SetState (SetNewNote s)) = st\<lparr>newNote := s\<rparr>"
| "notes_apply st (SetState (SetEditingIndex i)) = st\<lparr>editingIndex := i\<rparr>"
| "notes_apply st (SetState (SetIsSaving b)) = st\<lparr>isSaving := b\<rparr>"
| "notes_apply st e = st"

text \<open>The state after the effects of a call, and every state on the way there.\<close>

definition notes_run :: "notes_state \<Rightarrow> notes_set event list \<Rightarrow> notes_state" where
  "notes_run st evs = foldl notes_apply st evs"

definition notes_seen :: "notes_state \<Rightarrow> notes_set event list \<Rightarrow> notes_state list" where
  "notes_seen st evs = map (\<lambda>n. notes_run st (take n evs)) [0 ..< Suc (length evs)]"

text \<open>\<open>customer?.metadata?.notes\<close>\<close>

definition notes_field :: "Customer option \<Rightarrow> jsval option" where
  "notes_field c =
     (case c of
        None \<Rightarrow> None
      | Some cu \<Rightarrow> (case customer_metadata cu of None \<Rightarrow> None | Some m \<Rightarrow> m ''notes''))"

text \<open>
  The body of \<open>fetchCustomer\<close>, run once when the widget mounts with the id taken from
  the path. The inner \<open>try\<close> is entered only when the field is truthy; its \<open>catch\<close> logs
  and empties the list; a parsed value that is not an array empties the list without a
  log. Everything is inside the outer \<open>try\<close>, whose \<open>catch\<close> only logs.
\<close>

definition parse_notes :: "runtime \<Rightarrow> jsval option \<Rightarrow> notes_set event list" where
  "parse_notes rt field =
     (case field of
        None \<Rightarrow> []
      | Some v \<Rightarrow>
          if truthy v then
            (case JSON_parse rt v of
               Inl e \<Rightarrow> [Console_error ''Error parsing notes:'' e, SetState (SetNotes [])]
             | Inr parsedNotes \<Rightarrow>
                 [SetState (SetNotes (case parsedNotes of JArr xs \<Rightarrow> xs | _ \<Rightarrow> []))])
          else [])"

definition fetchCustomer :: "runtime \<Rightarrow> Customer sdk \<Rightarrow> string \<Rightarrow> notes_set event list" where
  "fetchCustomer rt api i =
     Retrieve i #
     (case retrieve api i of
        Inl e \<Rightarrow> [Console_error ''Error fetching customer:'' e]
      | Inr c \<Rightarrow>
          [Console_log ''Retrieved customer:'', SetState (SetCustomer c)]
          @ parse_notes rt (notes_field c))"

text \<open>
  \<open>updateCustomerMetadata(updatedNotes)\<close>: the result is the returned boolean and the
  effects. Without a customer id nothing happens. Otherwise the customer is fetched
  again, the update carries the fetched metadata with \<open>notes\<close> replaced, and an update
  that resolves without a customer throws. The \<open>catch\<close> logs, alerts and returns
  \<open>false\<close>; the \<open>finally\<close> resets \<open>isSaving\<close> on every path.
\<close>

definition notes_failed :: "notes_set event list \<Rightarrow> error \<Rightarrow> bool \<times> notes_set event list" where
  "notes_failed before e =
     (False, before @ [Console_error ''Error saving notes:'' e, Alert ''Failed to save notes'',
                     SetState (SetIsSaving False)])"

definition updateCustomerMetadata ::
  "runtime \<Rightarrow> Customer sdk \<Rightarrow> notes_state \<Rightarrow> jsval list \<Rightarrow> bool \<times> notes_set event list" where
  "updateCustomerMetadata rt api st updatedNotes =
     (case customer st of
        None \<Rightarrow> (False, [])
      | Some c \<Rightarrow>
          if customer_id c = [] then (False, [])
          else
            (let i = customer_id c; begun = [SetState (SetIsSaving True), Retrieve i] in
             case retrieve api i of
               Inl e \<Rightarrow> notes_failed begun e
             | Inr None \<Rightarrow> notes_failed begun TypeError
             | Inr (Some latest) \<Rightarrow>
                 (let m = (spread (customer_metadata latest))
                            (''notes'' \<mapsto> JStr (JSON_stringify rt (JArr updatedNotes)))
                  in case update api i m of
                       Inl e \<Rightarrow> notes_failed (begun @ [Update i m]) e
                     | Inr None \<Rightarrow>
                         notes_failed (begun @ [Update i m]) (Error ''Failed to update customer'')
                     | Inr (Some updated) \<Rightarrow>
                         (True, begun @ [Update i m, SetState (SetCustomer (Some updated)),
                                         SetState (SetIsSaving False)]))))"

text \<open>
  \<open>addNote\<close>: nothing for a blank input; otherwise the new note is appended, written
  back, and committed with the input cleared only when the write-back returned \<open>true\<close>.
\<close>

definition newNoteObj :: "runtime \<Rightarrow> notes_state \<Rightarrow> Note" where
  "newNoteObj rt st =
     \<lparr>note_id = Date_now rt, content = trim (newNote st), timestamp = Date_toISOString rt,
      createdBy = ''Admin'', lastEdited = None\<rparr>"

definition addNote :: "runtime \<Rightarrow> Customer sdk \<Rightarrow> notes_state \<Rightarrow> notes_set event list" where
  "addNote rt api st =
     (if trim (newNote st) = [] then []
      else
        (let updatedNotes = notes_list st @ [note_value (newNoteObj rt st)];
             (success, evs) = updateCustomerMetadata rt api st updatedNotes
         in evs @ (if success then [SetState (SetNotes updatedNotes), SetState (SetNewNote [])] else [])))"

text \<open>
  \<open>deleteNote(noteId: number)\<close>: \<open>notes.filter((note) => note.id !== noteId)\<close>. An
  exception of the callback leaves the handler before any call is made.
\<close>

definition deleteNote_filter :: "int \<Rightarrow> jsval list \<Rightarrow> error + jsval list" where
  "deleteNote_filter noteId ns =
     array_filter
       (\<lambda>note. case get_id note of Inl e \<Rightarrow> Inl e | Inr v \<Rightarrow> Inr (v \<noteq> Some (JNum noteId)))
       ns"

definition deleteNote ::
  "runtime \<Rightarrow> Customer sdk \<Rightarrow> notes_state \<Rightarrow> int \<Rightarrow> notes_set event list" where
  "deleteNote rt api st noteId =
     (case deleteNote_filter noteId (notes_list st) of
        Inl e \<Rightarrow> [Uncaught e]
      | Inr updatedNotes \<Rightarrow>
          (let (success, evs) = updateCustomerMetadata rt api st updatedNotes
           in evs @ (if success then [SetState (SetNotes updatedNotes)] else [])))"

text \<open>
  \<open>saveEdit(noteId)\<close>: every note whose id is \<open>noteId\<close> is replaced by
  \<open>{...note, content: newNote.trim(), lastEdited: new Date().toISOString()}\<close>.
\<close>

definition saveEdit_note :: "runtime \<Rightarrow> notes_state \<Rightarrow> int \<Rightarrow> jsval \<Rightarrow> error + jsval" where
  "saveEdit_note rt st noteId note =
     (case get_id note of
        Inl e \<Rightarrow> Inl e
      | Inr v \<Rightarrow>
          if v = Some (JNum noteId) then
            (case note of
               JObj kvs \<Rightarrow>
                 Inr (JObj (define_prop ''lastEdited'' (JStr (Date_toISOString rt))
                             (define_prop ''content'' (JStr (trim (newNote st))) kvs)))
             | _ \<Rightarrow> Inr note)
          else Inr note)"

definition saveEdit ::
  "runtime \<Rightarrow> Customer sdk \<Rightarrow> notes_state \<Rightarrow> int \<Rightarrow> notes_set event list" where
  "saveEdit rt api st noteId =
     (case array_map (saveEdit_note rt st noteId) (notes_list st) of
        Inl e \<Rightarrow> [Uncaught e]
      | Inr updatedNotes \<Rightarrow>
          (let (success, evs) = updateCustomerMetadata rt api st updatedNotes
           in evs @ (if success
                     then [SetState (SetNotes updatedNotes), SetState (SetEditingIndex None),
                           SetState (SetNewNote [])]
                     else [])))"

section \<open>The product quicklinks widget\<close>

text \<open>
  Of the widget's state, the handlers below read and write \<open>currentProduct\<close>,
  \<open>quicklinks\<close>, \<open>title\<close>, \<open>link\<close>, \<open>linkType\<close> and \<open>isSaving\<close>; the pickers' lists and
  search terms play no part in them.
\<close>

datatype link_type = Custom_link | Product_link | Collection_link

fun link_type_string :: "link_type \<Rightarrow> string" where
  "link_type_string Custom_link = ''custom''"
| "link_type_string Product_link = ''product''"
| "link_type_string Collection_link = ''collection''"

text \<open>\<open>type Quicklink = { title: string; link: string; type: 'custom' | 'product' | 'collection' }\<close>\<close>

record Quicklink =
  ql_title :: string
  ql_link :: string
  ql_type :: link_type

definition quicklink_value :: "Quicklink \<Rightarrow> jsval" where
  "quicklink_value q =
     JObj [(''title'', JStr (ql_title q)), (''link'', JStr (ql_link q)),
           (''type'', JStr (link_type_string (ql_type q)))]"

record quicklinks_state =
  currentProduct :: "Product option"
  quicklinks :: "jsval list"
  title :: string
  link :: string
  linkType :: link_type
  ql_isSaving :: bool

datatype quicklinks_set =
    SetCurrentProduct "Product option"
  | SetQuicklinks "jsval list"
  | SetTitle string
  | SetLink string
  | SetLinkType link_type
  | QlSetIsSaving bool

definition quicklinks_initial :: quicklinks_state where
  "quicklinks_initial =
     \<lparr>currentProduct = None, quicklinks = [], title = [], link = [],
      linkType = Custom_link, ql_isSaving = False\<rparr>"

fun quicklinks_apply :: "quicklinks_state \<Rightarrow> quicklinks_set event \<Rightarrow> quicklinks_state" where
  "quicklinks_apply st (SetState (SetCurrentProduct p)) = st\<lparr>currentProduct := p\<rparr>"
| "quicklinks_apply st (SetState (SetQuicklinks qs)) = st\<lparr>quicklinks := qs\<rparr>"
| "quicklinks_apply st (SetState (SetTitle s)) = st\<lparr>title := s\<rparr>"
| "quicklinks_apply st (SetState (SetLink s)) = st\<lparr>link := s\<rparr>"
| "quicklinks_apply st (SetState (SetLinkType t)) = st\<lparr>linkType := t\<rparr>"
| "quicklinks_apply st (SetState (QlSetIsSaving b)) = st\<lparr>ql_isSaving := b\<rparr>"
| "quicklinks_apply st e = st"

definition quicklinks_run ::
  "quicklinks_state \<Rightarrow> quicklinks_set event list \<Rightarrow> quicklinks_state" where
  "quicklinks_run st evs = foldl quicklinks_apply st evs"

definition quicklinks_seen ::
  "quicklinks_state \<Rightarrow> quicklinks_set event list \<Rightarrow> quicklinks_state list" where
  "quicklinks_seen st evs =
     map (\<lambda>n. quicklinks_run st (take n evs)) [0 ..< Suc (length evs)]"

text \<open>\<open>product?.metadata?.quicklinks\<close>\<close>

definition quicklinks_field :: "Product option \<Rightarrow> jsval option" where
  "quicklinks_field p =
     (case p of
        None \<Rightarrow> None
      | Some pr \<Rightarrow> (case product_metadata pr of None \<Rightarrow> None | Some m \<Rightarrow> m ''quicklinks''))"

definition parse_quicklinks :: "runtime \<Rightarrow> jsval option \<Rightarrow> quicklinks_set event list" where
  "parse_quicklinks rt field =
     (case field of
        None \<Rightarrow> []
      | Some v \<Rightarrow>
          if truthy v then
            (case JSON_parse rt v of
               Inl e \<Rightarrow> [Console_error ''Error parsing quicklinks:'' e, SetState (SetQuicklinks [])]
             | Inr parsedQuicklinks \<Rightarrow>
                 [SetState (SetQuicklinks (case parsedQuicklinks of JArr xs \<Rightarrow> xs | _ \<Rightarrow> []))])
          else [])"

definition loadProduct :: "runtime \<Rightarrow> Product sdk \<Rightarrow> string \<Rightarrow> quicklinks_set event list" where
  "loadProduct rt api productId =
     Retrieve productId #
     (case retrieve api productId of
        Inl e \<Rightarrow> [Console_error ''Error loading product:'' e]
      | Inr p \<Rightarrow> SetState (SetCurrentProduct p) # parse_quicklinks rt (quicklinks_field p))"

text \<open>
  \<open>updateProductMetadata(updatedQuicklinks)\<close>: the product is fetched again and the
  update carries the fetched metadata with \<open>quicklinks\<close> replaced. The response of the
  update is not looked at: once the promise resolves the function returns \<open>true\<close>. The
  \<open>catch\<close> logs and returns \<open>false\<close>.
\<close>

definition quicklinks_failed ::
  "quicklinks_set event list \<Rightarrow> error \<Rightarrow> bool \<times> quicklinks_set event list" where
  "quicklinks_failed before e =
     (False, before @ [Console_error ''Error updating quicklinks:'' e,
                       SetState (QlSetIsSaving False)])"

definition updateProductMetadata ::
  "runtime \<Rightarrow> Product sdk \<Rightarrow> quicklinks_state \<Rightarrow> jsval list
     \<Rightarrow> bool \<times> quicklinks_set event list" where
  "updateProductMetadata rt api st updatedQuicklinks =
     (case currentProduct st of
        None \<Rightarrow> (False, [])
      | Some p \<Rightarrow>
          if product_id p = [] then (False, [])
          else
            (let i = product_id p; begun = [SetState (QlSetIsSaving True), Retrieve i] in
             case retrieve api i of
               Inl e \<Rightarrow> quicklinks_failed begun e
             | Inr None \<Rightarrow> quicklinks_failed begun TypeError
             | Inr (Some latest) \<Rightarrow>
                 (let m = (spread (product_metadata latest))
                            (''quicklinks'' \<mapsto> JStr (JSON_stringify rt (JArr updatedQuicklinks)))
                  in case update api i m of
                       Inl e \<Rightarrow> quicklinks_failed (begun @ [Update i m]) e
                     | Inr response \<Rightarrow>
                         (True, begun @ [Update i m, SetState (QlSetIsSaving False)]))))"

text \<open>
  \<open>handleAddQuicklink\<close>: nothing without a link, or without a title for a custom link;
  the new quicklink is \<open>{title: title || link, link: link.trim(), type: linkType}\<close>.
\<close>

definition newQuicklink :: "quicklinks_state \<Rightarrow> Quicklink" where
  "newQuicklink st =
     \<lparr>ql_title = (if title st \<noteq> [] then title st else link st), ql_link = trim (link st),
      ql_type = linkType st\<rparr>"

definition handleAddQuicklink ::
  "runtime \<Rightarrow> Product sdk \<Rightarrow> quicklinks_state \<Rightarrow> quicklinks_set event list" where
  "handleAddQuicklink rt api st =
     (if trim (link st) = [] \<or> (linkType st = Custom_link \<and> trim (title st) = []) then []
      else
        (let updatedQuicklinks = quicklinks st @ [quicklink_value (newQuicklink st)];
             (success, evs) = updateProductMetadata rt api st updatedQuicklinks
         in evs @ (if success
                   then [SetState (SetQuicklinks updatedQuicklinks), SetState (SetTitle []),
                         SetState (SetLink []), SetState (SetLinkType Custom_link)]
                   else [])))"

text \<open>\<open>handleRemoveQuicklink(index)\<close>: \<open>quicklinks.filter((_, i) => i !== index)\<close>.\<close>

definition filter_index :: "int \<Rightarrow> 'a list \<Rightarrow> 'a list" where
  "filter_index index xs = map snd (filter (\<lambda>(i, x). int i \<noteq> index) (enumerate 0 xs))"

definition handleRemoveQuicklink ::
  "runtime \<Rightarrow> Product sdk \<Rightarrow> quicklinks_state \<Rightarrow> int \<Rightarrow> quicklinks_set event list" where
  "handleRemoveQuicklink rt api st index =
     (let updatedQuicklinks = filter_index index (quicklinks st);
          (success, evs) = updateProductMetadata rt api st updatedQuicklinks
      in evs @ (if success then [SetState (SetQuicklinks updatedQuicklinks)] else []))"

section \<open>The password restriction widget\<close>

record password_state =
  pw_customer :: "Customer option"
  passwordOption :: jsval
  pw_isSaving :: bool

datatype password_set =
    PwSetCustomer "Customer option"
  | SetPasswordOption jsval
  | PwSetIsSaving bool

definition password_initial :: password_state where
  "password_initial = \<lparr>pw_customer = None, passwordOption = JBool True, pw_isSaving = False\<rparr>"

fun password_apply :: "password_state \<Rightarrow> password_set event \<Rightarrow> password_state" where
  "password_apply st (SetState (PwSetCustomer c)) = st\<lparr>pw_customer := c\<rparr>"
| "password_apply st (SetState (SetPasswordOption v)) = st\<lparr>passwordOption := v\<rparr>"
| "password_apply st (SetState (PwSetIsSaving b)) = st\<lparr>pw_isSaving := b\<rparr>"
| "password_apply st e = st"

definition password_run :: "password_state \<Rightarrow> password_set event list \<Rightarrow> password_state" where
  "password_run st evs = foldl password_apply st evs"

text \<open>
  \<open>customer?.metadata?.can_change_password as boolean ?? true\<close>: the optional chain gives
  \<open>undefined\<close> when the customer, its metadata or the key is missing; the cast checks
  nothing; \<open>??\<close> takes the default for \<open>undefined\<close> and for \<open>null\<close>.
\<close>

definition flag_field :: "Customer option \<Rightarrow> jsval option" where
  "flag_field c =
     (case c of
        None \<Rightarrow> None
      | Some cu \<Rightarrow>
          (case customer_metadata cu of
             None \<Rightarrow> None
           | Some m \<Rightarrow> m ''can_change_password''))"

definition canChangePassword :: "Customer option \<Rightarrow> jsval" where
  "canChangePassword c =
     (case flag_field c of
        None \<Rightarrow> JBool True
      | Some JNull \<Rightarrow> JBool True
      | Some v \<Rightarrow> v)"

text \<open>
  The effect of \<open>PasswordRestrictionWidget\<close>, with the last segment of the path as
  \<open>customerId\<close>: nothing for an empty id; the \<open>catch\<close> of the promise only logs.
\<close>

definition passwordRestriction_effect ::
  "Customer sdk \<Rightarrow> string \<Rightarrow> password_set event list" where
  "passwordRestriction_effect api customerId =
     (if customerId = [] then []
      else
        Retrieve customerId #
        (case retrieve api customerId of
           Inl e \<Rightarrow> [Console_error ''Error retrieving customer:'' e]
         | Inr c \<Rightarrow>
             [Console_log ''Retrieved customer:'', SetState (PwSetCustomer c),
              SetState (SetPasswordOption (canChangePassword c))]))"

text \<open>
  \<open>handleOptionChange(option)\<close>: the update carries the metadata of the customer held
  in the widget's state, with \<open>can_change_password\<close> replaced; no \<open>retrieve\<close> is called.
  The \<open>catch\<close> only logs.
\<close>

definition handleOptionChange ::
  "Customer sdk \<Rightarrow> password_state \<Rightarrow> bool \<Rightarrow> password_set event list" where
  "handleOptionChange api st option =
     (case pw_customer st of
        None \<Rightarrow> []
      | Some c \<Rightarrow>
          if customer_id c = [] then []
          else
            (let i = customer_id c;
                 m = (spread (customer_metadata c))(''can_change_password'' \<mapsto> JBool option)
             in [SetState (PwSetIsSaving True), Update i m]
                @ (case update api i m of
                     Inl e \<Rightarrow> [Console_error ''Error updating password restriction:'' e]
                   | Inr None \<Rightarrow>
                       [Console_error ''Error updating password restriction:''
                          (Error ''Failed to update customer'')]
                   | Inr (Some updatedCustomer) \<Rightarrow>
                       [SetState (PwSetCustomer (Some updatedCustomer)),
                        SetState (SetPasswordOption (JBool option))])
                @ [SetState (PwSetIsSaving False)]))"

section \<open>The JavaScript run time\<close>

text \<open>
  Modelled from the spec: \<open>JSON.stringify\<close> and \<open>JSON.parse\<close>, which the spec names as the
  encoding and the decoding of the synchronized field, are builtins of the JavaScript
  run time and have no source in the repository. The definitions follow ECMAScript's
  \<open>JSON.stringify\<close> (without indentation) and \<open>JSON.parse\<close> on the values of \<open>jsval\<close>:
  characters are the code units below 256 and numbers are integers, printed in decimal
  as \<open>Number::toString\<close> prints every integer of magnitude below \<open>10^21\<close>. A text with a
  fraction, an exponent or an escape of a code unit above 255 denotes no value of
  \<open>jsval\<close>; the reader below does not accept it. This concrete run time is what the
  widgets are evaluated with on concrete inputs, and what the round trip of the notes
  and quicklinks through their metadata field is proved for.
\<close>

subsection \<open>\<open>JSON.stringify\<close>\<close>

definition digit_char :: "int \<Rightarrow> char" where
  "digit_char d = char_of (48 + d)"

function show_digits :: "int \<Rightarrow> string" where
  "show_digits n =
     (if n < 10 then [digit_char n] else show_digits (n div 10) @ [digit_char (n mod 10)])"
  by pat_completeness auto
termination
  by (relation "measure nat") auto

declare show_digits.simps [simp del]

definition show_int :: "int \<Rightarrow> string" where
  "show_int i = (if i < 0 then CHR ''-'' # show_digits (- i) else show_digits i)"

definition hex_char :: "int \<Rightarrow> char" where
  "hex_char d = (if d < 10 then char_of (48 + d) else char_of (87 + d))"

text \<open>
  QuoteJSONString: the quotation mark and the backslash are escaped, the control
  characters below \<open>0x20\<close> are written \<open>\b\<close>, \<open>\f\<close>, \<open>\n\<close>, \<open>\r\<close>, \<open>\t\<close> or \<open>\u00XX\<close> with lower-case
  hexadecimal digits, and every other character stands for itself.
\<close>

definition escape_char :: "char \<Rightarrow> string" where
  "escape_char c =
     (if c = CHR 0x22 then [CHR 0x5C, CHR 0x22]
      else if c = CHR 0x5C then [CHR 0x5C, CHR 0x5C]
      else if c = CHR 0x08 then [CHR 0x5C, CHR ''b'']
      else if c = CHR 0x0C then [CHR 0x5C, CHR ''f'']
      else if c = CHR 0x0A then [CHR 0x5C, CHR ''n'']
      else if c = CHR 0x0D then [CHR 0x5C, CHR ''r'']
      else if c = CHR 0x09 then [CHR 0x5C, CHR ''t'']
      else if (of_char c :: int) < 32 then
        [CHR 0x5C, CHR ''u'', CHR ''0'', CHR ''0'',
         hex_char (of_char c div 16), hex_char (of_char c mod 16)]
      else [c])"

definition quote :: "string \<Rightarrow> string" where
  "quote s = CHR 0x22 # concat (map escape_char s) @ [CHR 0x22]"

fun stringify :: "jsval \<Rightarrow> string"
and stringify_elems :: "jsval list \<Rightarrow> string"
and stringify_members :: "(string \<times> jsval) list \<Rightarrow> string" where
  "stringify JNull = ''null''"
| "stringify (JBool b) = (if b then ''true'' else ''false'')"
| "stringify (JNum n) = show_int n"
| "stringify (JStr s) = quote s"
| "stringify (JArr xs) = ''['' @ stringify_elems xs @ '']''"
| "stringify (JObj kvs) = ''{'' @ stringify_members kvs @ ''}''"
| "stringify_elems [] = []"
| "stringify_elems (x # xs) =
     stringify x @ (if xs = [] then [] else '','' @ stringify_elems xs)"
| "stringify_members [] = []"
| "stringify_members ((k, v) # kvs) =
     quote k @ '':'' @ stringify v @ (if kvs = [] then [] else '','' @ stringify_members kvs)"

subsection \<open>\<open>JSON.parse\<close>\<close>

definition is_ws :: "char \<Rightarrow> bool" where
  "is_ws c = (c = CHR 0x20 \<or> c = CHR 0x09 \<or> c = CHR 0x0A \<or> c = CHR 0x0D)"

definition skip_ws :: "string \<Rightarrow> string" where
  "skip_ws s = dropWhile is_ws s"

definition hex_val :: "char \<Rightarrow> int option" where
  "hex_val c =
     (let n = (of_char c :: int)
      in if 48 \<le> n \<and> n \<le> 57 then Some (n - 48)
         else if 97 \<le> n \<and> n \<le> 102 then Some (n - 87)
         else if 65 \<le> n \<and> n \<le> 70 then Some (n - 55)
         else None)"

text \<open>The character after a backslash, other than \<open>u\<close>.\<close>

definition unescape :: "char \<Rightarrow> char option" where
  "unescape e =
     (if e = CHR 0x22 then Some (CHR 0x22)
      else if e = CHR 0x5C then Some (CHR 0x5C)
      else if e = CHR ''/'' then Some (CHR ''/'')
      else if e = CHR ''b'' then Some (CHR 0x08)
      else if e = CHR ''f'' then Some (CHR 0x0C)
      else if e = CHR ''n'' then Some (CHR 0x0A)
      else if e = CHR ''r'' then Some (CHR 0x0D)
      else if e = CHR ''t'' then Some (CHR 0x09)
      else None)"

definition cons_char :: "char \<Rightarrow> (string \<times> string) option \<Rightarrow> (string \<times> string) option" where
  "cons_char c res = (case res of None \<Rightarrow> None | Some (s, rest) \<Rightarrow> Some (c # s, rest))"

text \<open>
  The characters of a string after its opening quotation mark, up to the closing one:
  the string and the text that follows it.
\<close>

fun parse_chars :: "string \<Rightarrow> (string \<times> string) option" where
  "parse_chars [] = None"
| "parse_chars (c # cs) =
     (if c = CHR 0x22 then Some ([], cs)
      else if c = CHR 0x5C then
        (case cs of
           [] \<Rightarrow> None
         | e # es \<Rightarrow>
             if e = CHR ''u'' then
               (case es of
                  h1 # h2 # h3 # h4 # r \<Rightarrow>
                    (case (hex_val h1, hex_val h2, hex_val h3, hex_val h4) of
                       (Some a, Some b, Some c', Some d) \<Rightarrow>
                         if a = 0 \<and> b = 0 then cons_char (char_of (16 * c' + d)) (parse_chars r)
                         else None
                     | _ \<Rightarrow> None)
                | _ \<Rightarrow> None)
             else
               (case unescape e of
                  None \<Rightarrow> None
                | Some ch \<Rightarrow> cons_char ch (parse_chars es)))
      else if (of_char c :: int) < 32 then None
      else cons_char c (parse_chars cs))"

text \<open>
  A number: an optional minus sign and the digits of an integer without a leading
  zero. A fraction or an exponent after them is not accepted.
\<close>

definition parse_number :: "string \<Rightarrow> (jsval \<times> string) option" where
  "parse_number s =
     (let neg = (s \<noteq> [] \<and> hd s = CHR ''-'');
          s1 = (if neg then tl s else s);
          ds = takeWhile is_digit s1;
          rest = dropWhile is_digit s1
      in if ds = [] then None
         else if 1 < length ds \<and> hd ds = CHR ''0'' then None
         else if rest \<noteq> [] \<and> hd rest \<in> {CHR ''.'', CHR ''e'', CHR ''E''} then None
         else Some (JNum (if neg then - int_of_digits ds else int_of_digits ds),
                    rest))"

definition expect :: "string \<Rightarrow> jsval \<Rightarrow> string \<Rightarrow> (jsval \<times> string) option" where
  "expect lit v s =
     (if take (length lit) s = lit then Some (v, drop (length lit) s) else None)"

text \<open>The object of a list of members: each is defined in turn, so a repeated name keeps
  its first place and its last value.\<close>

definition object_of :: "(string \<times> jsval) list \<Rightarrow> (string \<times> jsval) list" where
  "object_of ms = foldl (\<lambda>obj (k, v). define_prop k v obj) [] ms"

text \<open>
  Recursive descent. The first argument bounds the depth of the calls; \<open>parse_text\<close>
  starts with the length of the text.
\<close>

fun parse_value :: "nat \<Rightarrow> string \<Rightarrow> (jsval \<times> string) option"
and parse_elems :: "nat \<Rightarrow> string \<Rightarrow> (jsval list \<times> string) option"
and parse_members :: "nat \<Rightarrow> string \<Rightarrow> ((string \<times> jsval) list \<times> string) option" where
  "parse_value 0 s = None"
| "parse_value (Suc n) s =
     (case skip_ws s of
        [] \<Rightarrow> None
      | c # cs \<Rightarrow>
          if c = CHR ''['' then
            (case skip_ws cs of
               [] \<Rightarrow> None
             | d # ds \<Rightarrow>
                 if d = CHR '']'' then Some (JArr [], ds)
                 else (case parse_elems n cs of
                         None \<Rightarrow> None
                       | Some (xs, r) \<Rightarrow> Some (JArr xs, r)))
          else if c = CHR ''{'' then
            (case skip_ws cs of
               [] \<Rightarrow> None
             | d # ds \<Rightarrow>
                 if d = CHR ''}'' then Some (JObj [], ds)
                 else (case parse_members n cs of
                         None \<Rightarrow> None
                       | Some (ms, r) \<Rightarrow> Some (JObj (object_of ms), r)))
          else if c = CHR 0x22 then
            (case parse_chars cs of
               None \<Rightarrow> None
             | Some (str, r) \<Rightarrow> Some (JStr str, r))
          else if c = CHR ''-'' \<or> is_digit c then parse_number (c # cs)
          else if c = CHR ''t'' then expect ''rue'' (JBool True) cs
          else if c = CHR ''f'' then expect ''alse'' (JBool False) cs
          else if c = CHR ''n'' then expect ''ull'' JNull cs
          else None)"
| "parse_elems 0 s = None"
| "parse_elems (Suc n) s =
     (case parse_value n s of
        None \<Rightarrow> None
      | Some (x, r) \<Rightarrow>
          (case skip_ws r of
             [] \<Rightarrow> None
           | c # cs \<Rightarrow>
               if c = CHR '','' then
                 (case parse_elems n cs of
                    None \<Rightarrow> None
                  | Some (xs, r') \<Rightarrow> Some (x # xs, r'))
               else if c = CHR '']'' then Some ([x], cs)
               else None))"
| "parse_members 0 s = None"
| "parse_members (Suc n) s =
     (case skip_ws s of
        [] \<Rightarrow> None
      | c # cs \<Rightarrow>
          if c = CHR 0x22 then
            (case parse_chars cs of
               None \<Rightarrow> None
             | Some (k, r) \<Rightarrow>
                 (case skip_ws r of
                    [] \<Rightarrow> None
                  | c' # cs' \<Rightarrow>
                      if c' = CHR '':'' then
                        (case parse_value n cs' of
                           None \<Rightarrow> None
                         | Some (v, r') \<Rightarrow>
                             (case skip_ws r' of
                                [] \<Rightarrow> None
                              | d # ds \<Rightarrow>
                                  if d = CHR '','' then
                                    (case parse_members n ds of
                                       None \<Rightarrow> None
                                     | Some (ms, r'') \<Rightarrow> Some ((k, v) # ms, r''))
                                  else if d = CHR ''}'' then Some ([(k, v)], ds)
                                  else None))
                      else None))
          else None)"

definition parse_text :: "string \<Rightarrow> jsval option" where
  "parse_text s =
     (case parse_value (length s) s of
        None \<Rightarrow> None
      | Some (v, r) \<Rightarrow> if skip_ws r = [] then Some v else None)"

text \<open>
  \<open>JSON.parse\<close> converts its argument to a string first (ToString): a string is itself,
  an array is its elements joined by commas with \<open>null\<close> as the empty string, an object
  is \<open>[object Object]\<close>.
\<close>

fun to_string :: "jsval \<Rightarrow> string"
and join_elems :: "jsval list \<Rightarrow> string" where
  "to_string JNull = ''null''"
| "to_string (JBool b) = (if b then ''true'' else ''false'')"
| "to_string (JNum n) = show_int n"
| "to_string (JStr s) = s"
| "to_string (JArr xs) = join_elems xs"
| "to_string (JObj kvs) = ''[object Object]''"
| "join_elems [] = []"
| "join_elems (x # xs) =
     (if x = JNull then [] else to_string x) @ (if xs = [] then [] else '','' @ join_elems xs)"

definition js_runtime :: "int \<Rightarrow> string \<Rightarrow> runtime" where
  "js_runtime now isoString =
     \<lparr>JSON_parse = (\<lambda>v. case parse_text (to_string v) of
                          None \<Rightarrow> Inl SyntaxError
                        | Some parsed \<Rightarrow> Inr parsed),
      JSON_stringify = stringify,
      Date_now = now,
      Date_toISOString = isoString\<rparr>"

text \<open>
  A note whose id is a safe integer (of magnitude at most \<open>2^53 - 1\<close>), as every value
  of \<open>Date.now()\<close> is: the integers on which the numbers of JavaScript are exact.
\<close>

definition valid_note :: "Note \<Rightarrow> bool" where
  "valid_note n = (\<bar>note_id n\<bar> < 2 ^ 53)"

section \<open>Observations on the effects of a call\<close>

fun updates_sent :: "'u event list \<Rightarrow> (string \<times> metadata) list" where
  "updates_sent [] = []"
| "updates_sent (Update i m # es) = (i, m) # updates_sent es"
| "updates_sent (e # es) = updates_sent es"

fun retrieves_sent :: "'u event list \<Rightarrow> string list" where
  "retrieves_sent [] = []"
| "retrieves_sent (Retrieve i # es) = i # retrieves_sent es"
| "retrieves_sent (e # es) = retrieves_sent es"

fun alerts :: "'u event list \<Rightarrow> string list" where
  "alerts [] = []"
| "alerts (Alert a # es) = a # alerts es"
| "alerts (e # es) = alerts es"

fun errors_logged :: "'u event list \<Rightarrow> (string \<times> error) list" where
  "errors_logged [] = []"
| "errors_logged (Console_error a e # es) = (a, e) # errors_logged es"
| "errors_logged (e # es) = errors_logged es"

fun uncaught :: "'u event list \<Rightarrow> error list" where
  "uncaught [] = []"
| "uncaught (Uncaught e # es) = e # uncaught es"
| "uncaught (e # es) = uncaught es"

text \<open>
  For the round trip: a value all of whose objects have distinct property names, none
  of them an array index (such an object is the list of its members as written), and a
  text after a value that starts with a comma or a closing bracket, or is empty.
\<close>

fun simple_value :: "jsval \<Rightarrow> bool" where
  "simple_value (JArr xs) = list_all simple_value xs"
| "simple_value (JObj kvs) =
     (distinct (map fst kvs)
      \<and> list_all (\<lambda>kv. \<not> is_index (fst kv) \<and> simple_value (snd kv)) kvs)"
| "simple_value v = True"

definition delimited :: "string \<Rightarrow> bool" where
  "delimited r = (r = [] \<or> hd r \<in> {CHR '','', CHR '']'', CHR ''}''})"

section \<open>Example inputs\<close>

text \<open>
  Concrete inputs on which the results below are evaluated: a customer and a product
  with a given metadata bag, a remote system that holds such an entity and confirms
  every update with the entity as updated, and the three ways a write-back can fail.
\<close>

definition ex_customer :: "metadata \<Rightarrow> Customer" where
  "ex_customer m = \<lparr>customer_id = ''cus_1'', customer_metadata = Some m\<rparr>"

definition ex_product :: "metadata \<Rightarrow> Product" where
  "ex_product m =
     \<lparr>product_id = ''prod_1'', product_title = ''Shirt'', product_handle = ''shirt'',
      product_metadata = Some m\<rparr>"

definition customer_remote :: "metadata \<Rightarrow> Customer sdk" where
  "customer_remote m =
     \<lparr>retrieve = (\<lambda>i. Inr (Some (ex_customer m))),
      update = (\<lambda>i m'. Inr (Some (ex_customer m')))\<rparr>"

definition product_remote :: "metadata \<Rightarrow> Product sdk" where
  "product_remote m =
     \<lparr>retrieve = (\<lambda>i. Inr (Some (ex_product m))),
      update = (\<lambda>i m'. Inr (Some (ex_product m')))\<rparr>"

definition retrieve_rejected :: "'e sdk \<Rightarrow> 'e sdk" where
  "retrieve_rejected api = api\<lparr>retrieve := (\<lambda>i. Inl (Rejection ''Network Error''))\<rparr>"

definition update_rejected :: "'e sdk \<Rightarrow> 'e sdk" where
  "update_rejected api = api\<lparr>update := (\<lambda>i m. Inl (Rejection ''Network Error''))\<rparr>"

definition update_unconfirmed :: "'e sdk \<Rightarrow> 'e sdk" where
  "update_unconfirmed api = api\<lparr>update := (\<lambda>i m. Inr None)\<rparr>"

definition ex_runtime :: runtime where
  "ex_runtime = js_runtime 1700000000000 ''2023-11-14T22:13:20.000Z''"

definition ex_note :: Note where
  "ex_note =
     \<lparr>note_id = 1699999999000, content = ''call back'', timestamp = ''2023-11-14T22:13:19.000Z'',
      createdBy = ''Admin'', lastEdited = None\<rparr>"

definition ex_quicklink :: Quicklink where
  "ex_quicklink = \<lparr>ql_title = ''Sale'', ql_link = ''/sale'', ql_type = Custom_link\<rparr>"

text \<open>The widgets after loading, with a text typed into the input fields.\<close>

definition notes_loaded :: "metadata \<Rightarrow> jsval list \<Rightarrow> notes_state" where
  "notes_loaded m ns =
     \<lparr>customer = Some (ex_customer m), notes_list = ns, newNote = ''ring twice'',
      editingIndex = None, isSaving = False\<rparr>"

definition quicklinks_loaded :: "metadata \<Rightarrow> jsval list \<Rightarrow> quicklinks_state" where
  "quicklinks_loaded m qs =
     \<lparr>currentProduct = Some (ex_product m), quicklinks = qs, title = ''New'', link = ''/new'',
      linkType = Custom_link, ql_isSaving = False\<rparr>"

definition password_loaded :: "metadata \<Rightarrow> password_state" where
  "password_loaded m =
     \<lparr>pw_customer = Some (ex_customer m), passwordOption = JBool True, pw_isSaving = False\<rparr>"

section \<open>Effects of a write-back\<close>

lemma updates_sent_append: "updates_sent (xs @ ys) = updates_sent xs @ updates_sent ys"
  by (induction xs rule: updates_sent.induct) auto

lemma retrieves_sent_append: "retrieves_sent (xs @ ys) = retrieves_sent xs @ retrieves_sent ys"
  by (induction xs rule: retrieves_sent.induct) auto

lemma alerts_append: "alerts (xs @ ys) = alerts xs @ alerts ys"
  by (induction xs rule: alerts.induct) auto

lemma errors_logged_append: "errors_logged (xs @ ys) = errors_logged xs @ errors_logged ys"
  by (induction xs rule: errors_logged.induct) auto

lemma uncaught_append: "uncaught (xs @ ys) = uncaught xs @ uncaught ys"
  by (induction xs rule: uncaught.induct) auto

lemma notes_run_simps:
  "notes_run st [] = st" "notes_run st (e # es) = notes_run (notes_apply st e) es"
  by (simp_all add: notes_run_def)

lemma notes_run_append: "notes_run st (xs @ ys) = notes_run (notes_run st xs) ys"
  by (simp add: notes_run_def)

lemma quicklinks_run_simps:
  "quicklinks_run st [] = st"
  "quicklinks_run st (e # es) = quicklinks_run (quicklinks_apply st e) es"
  by (simp_all add: quicklinks_run_def)

lemma quicklinks_run_append:
  "quicklinks_run st (xs @ ys) = quicklinks_run (quicklinks_run st xs) ys"
  by (simp add: quicklinks_run_def)

text \<open>
  The request of the notes widget: one \<open>retrieve\<close>, and when it resolves with a
  customer, one \<open>update\<close> carrying that customer's metadata with \<open>notes\<close> replaced.
\<close>

lemma updateCustomerMetadata_retrieves:
  assumes "customer st = Some c" and "customer_id c \<noteq> []"
  shows "retrieves_sent (snd (updateCustomerMetadata rt api st L)) = [customer_id c]"
  using assms
  by (simp add: updateCustomerMetadata_def notes_failed_def Let_def
      split: sum.splits option.splits)

lemma updateCustomerMetadata_updates:
  assumes "customer st = Some c" and "customer_id c \<noteq> []"
    and "retrieve api (customer_id c) = Inr (Some latest)"
  shows "updates_sent (snd (updateCustomerMetadata rt api st L)) =
           [(customer_id c, (spread (customer_metadata latest))
                              (''notes'' \<mapsto> JStr (JSON_stringify rt (JArr L))))]"
  using assms
  by (simp add: updateCustomerMetadata_def notes_failed_def Let_def
      split: sum.splits option.splits)

lemma updateCustomerMetadata_no_update:
  assumes "\<forall>latest. retrieve api i \<noteq> Inr (Some latest)" and "customer st = Some c"
    and "customer_id c = i"
  shows "updates_sent (snd (updateCustomerMetadata rt api st L)) = []"
  using assms
  by (simp add: updateCustomerMetadata_def notes_failed_def Let_def
      split: sum.splits option.splits)

lemma updateProductMetadata_retrieves:
  assumes "currentProduct st = Some p" and "product_id p \<noteq> []"
  shows "retrieves_sent (snd (updateProductMetadata rt api st Q)) = [product_id p]"
  using assms
  by (simp add: updateProductMetadata_def quicklinks_failed_def Let_def
      split: sum.splits option.splits)

lemma updateProductMetadata_updates:
  assumes "currentProduct st = Some p" and "product_id p \<noteq> []"
    and "retrieve api (product_id p) = Inr (Some latest)"
  shows "updates_sent (snd (updateProductMetadata rt api st Q)) =
           [(product_id p, (spread (product_metadata latest))
                             (''quicklinks'' \<mapsto> JStr (JSON_stringify rt (JArr Q))))]"
  using assms
  by (simp add: updateProductMetadata_def quicklinks_failed_def Let_def
      split: sum.splits option.splits)

text \<open>
  Claim C2. In both list widgets, when the write-back has a product or customer id and
  the re-fetch resolves with the entity, exactly one update request is sent; its metadata
  holds the JSON encoding of the new list under the synchronized key (\<open>notes\<close>,
  \<open>quicklinks\<close>) and, under every other key, exactly what the freshly fetched metadata
  holds there (nothing, where the fetched entity has no metadata or no such key). What
  the widget's own state holds as metadata plays no part.
\<close>

theorem C2_write_back_keeps_unrelated_metadata:
  assumes "customer st = Some c" and "customer_id c \<noteq> []"
    and "retrieve api (customer_id c) = Inr (Some latest)"
    and "currentProduct pst = Some p" and "product_id p \<noteq> []"
    and "retrieve papi (product_id p) = Inr (Some platest)"
  shows "(\<exists>m. updates_sent (snd (updateCustomerMetadata rt api st L)) = [(customer_id c, m)]
            \<and> m ''notes'' = Some (JStr (JSON_stringify rt (JArr L)))
            \<and> (\<forall>k. k \<noteq> ''notes'' \<longrightarrow> m k = spread (customer_metadata latest) k))
       \<and> (\<exists>m. updates_sent (snd (updateProductMetadata rt papi pst Q)) = [(product_id p, m)]
            \<and> m ''quicklinks'' = Some (JStr (JSON_stringify rt (JArr Q)))
            \<and> (\<forall>k. k \<noteq> ''quicklinks'' \<longrightarrow> m k = spread (product_metadata platest) k))"
  using assms by (simp add: updateCustomerMetadata_updates updateProductMetadata_updates)

theorem C2_write_back_keeps_unrelated_metadata_witness:
  "customer (notes_loaded Map.empty []) = Some (ex_customer Map.empty)
   \<and> customer_id (ex_customer Map.empty) \<noteq> []
   \<and> retrieve (customer_remote [''a'' \<mapsto> JNum 1]) (customer_id (ex_customer Map.empty))
       = Inr (Some (ex_customer [''a'' \<mapsto> JNum 1]))
   \<and> currentProduct (quicklinks_loaded Map.empty []) = Some (ex_product Map.empty)
   \<and> product_id (ex_product Map.empty) \<noteq> []
   \<and> retrieve (product_remote [''a'' \<mapsto> JNum 1]) (product_id (ex_product Map.empty))
       = Inr (Some (ex_product [''a'' \<mapsto> JNum 1]))
   \<and> (\<exists>m. updates_sent (snd (updateCustomerMetadata ex_runtime
               (customer_remote [''a'' \<mapsto> JNum 1]) (notes_loaded Map.empty [])
               [note_value ex_note])) = [(''cus_1'', m)]
          \<and> m ''notes'' = Some (JStr (stringify (JArr [note_value ex_note])))
          \<and> m ''a'' = Some (JNum 1))
   \<and> (\<exists>m. updates_sent (snd (updateProductMetadata ex_runtime
               (product_remote [''a'' \<mapsto> JNum 1]) (quicklinks_loaded Map.empty [])
               [quicklink_value ex_quicklink])) = [(''prod_1'', m)]
          \<and> m ''quicklinks'' = Some (JStr (stringify (JArr [quicklink_value ex_quicklink])))
          \<and> m ''a'' = Some (JNum 1))"
proof -
  have h1: "customer (notes_loaded Map.empty []) = Some (ex_customer Map.empty)"
    by (simp add: notes_loaded_def)
  have h2: "customer_id (ex_customer Map.empty) \<noteq> []"
    by (simp add: ex_customer_def)
  have h3: "retrieve (customer_remote [''a'' \<mapsto> JNum 1]) (customer_id (ex_customer Map.empty))
              = Inr (Some (ex_customer [''a'' \<mapsto> JNum 1]))"
    by (simp add: customer_remote_def)
  have h4: "currentProduct (quicklinks_loaded Map.empty []) = Some (ex_product Map.empty)"
    by (simp add: quicklinks_loaded_def)
  have h5: "product_id (ex_product Map.empty) \<noteq> []"
    by (simp add: ex_product_def)
  have h6: "retrieve (product_remote [''a'' \<mapsto> JNum 1]) (product_id (ex_product Map.empty))
              = Inr (Some (ex_product [''a'' \<mapsto> JNum 1]))"
    by (simp add: product_remote_def)
  from C2_write_back_keeps_unrelated_metadata [OF h1 h2 h3 h4 h5 h6,
      of ex_runtime "[note_value ex_note]" "[quicklink_value ex_quicklink]"]
  obtain m pm where
    m: "updates_sent (snd (updateCustomerMetadata ex_runtime
          (customer_remote [''a'' \<mapsto> JNum 1]) (notes_loaded Map.empty [])
          [note_value ex_note])) = [(customer_id (ex_customer Map.empty), m)]"
       "m ''notes'' = Some (JStr (JSON_stringify ex_runtime (JArr [note_value ex_note])))"
       "\<forall>k. k \<noteq> ''notes'' \<longrightarrow> m k = spread (customer_metadata (ex_customer [''a'' \<mapsto> JNum 1])) k"
    and pm: "updates_sent (snd (updateProductMetadata ex_runtime
          (product_remote [''a'' \<mapsto> JNum 1]) (quicklinks_loaded Map.empty [])
          [quicklink_value ex_quicklink])) = [(product_id (ex_product Map.empty), pm)]"
       "pm ''quicklinks''
          = Some (JStr (JSON_stringify ex_runtime (JArr [quicklink_value ex_quicklink])))"
       "\<forall>k. k \<noteq> ''quicklinks'' \<longrightarrow> pm k = spread (product_metadata (ex_product [''a'' \<mapsto> JNum 1])) k"
    by blast
  have ma: "m ''a'' = Some (JNum 1)"
    using m(3) by (simp add: ex_customer_def spread_def)
  have pma: "pm ''a'' = Some (JNum 1)"
    using pm(3) by (simp add: ex_product_def spread_def)
  have st: "JSON_stringify ex_runtime = stringify"
    by (simp add: ex_runtime_def js_runtime_def)
  have c: "\<exists>m. updates_sent (snd (updateCustomerMetadata ex_runtime
               (customer_remote [''a'' \<mapsto> JNum 1]) (notes_loaded Map.empty [])
               [note_value ex_note])) = [(''cus_1'', m)]
          \<and> m ''notes'' = Some (JStr (stringify (JArr [note_value ex_note])))
          \<and> m ''a'' = Some (JNum 1)"
    using m(1,2) ma st by (intro exI [of _ m]) (simp add: ex_customer_def)
  have q: "\<exists>m. updates_sent (snd (updateProductMetadata ex_runtime
               (product_remote [''a'' \<mapsto> JNum 1]) (quicklinks_loaded Map.empty [])
               [quicklink_value ex_quicklink])) = [(''prod_1'', m)]
          \<and> m ''quicklinks'' = Some (JStr (stringify (JArr [quicklink_value ex_quicklink])))
          \<and> m ''a'' = Some (JNum 1)"
    using pm(1,2) pma st by (intro exI [of _ pm]) (simp add: ex_product_def)
  show ?thesis
    using h1 h2 h3 h4 h5 h6 c q by (intro conjI)
qed

section \<open>Removing an item\<close>

lemma array_filter_total:
  "\<forall>x \<in> set xs. \<exists>b. p x = Inr b \<Longrightarrow>
     array_filter p xs = Inr (filter (\<lambda>x. p x = Inr True) xs)"
  by (induction xs) auto

lemma get_id_not_null: "x \<noteq> JNull \<Longrightarrow> \<exists>v. get_id x = Inr v"
  by (cases x) auto

lemma deleteNote_filter_eq:
  assumes "JNull \<notin> set L"
  shows "deleteNote_filter noteId L =
           Inr (filter (\<lambda>x. get_id x \<noteq> Inr (Some (JNum noteId))) L)"
proof -
  let ?p = "\<lambda>x. case get_id x of Inl e \<Rightarrow> Inl e | Inr v \<Rightarrow> Inr (v \<noteq> Some (JNum noteId))"
  have val: "\<exists>v. get_id x = Inr v" if "x \<in> set L" for x
    using that assms get_id_not_null [of x] by auto
  have tot: "\<forall>x \<in> set L. \<exists>b. ?p x = Inr b"
    using val by fastforce
  have same: "(?p x = Inr True) = (get_id x \<noteq> Inr (Some (JNum noteId)))" if "x \<in> set L" for x
    using val [OF that] by auto
  have "deleteNote_filter noteId L = Inr (filter (\<lambda>x. ?p x = Inr True) L)"
    unfolding deleteNote_filter_def using array_filter_total [OF tot] .
  also have "filter (\<lambda>x. ?p x = Inr True) L = filter (\<lambda>x. get_id x \<noteq> Inr (Some (JNum noteId))) L"
    using same by (intro filter_cong) auto
  finally show ?thesis .
qed

lemma deleteNote_filter_null:
  "JNull \<in> set L \<Longrightarrow> deleteNote_filter noteId L = Inl TypeError"
proof (induction L)
  case Nil
  then show ?case by simp
next
  case (Cons x L)
  show ?case
  proof (cases "x = JNull")
    case True
    then show ?thesis by (simp add: deleteNote_filter_def)
  next
    case False
    then obtain v where "get_id x = Inr v" using get_id_not_null by blast
    moreover have "deleteNote_filter noteId L = Inl TypeError" using Cons False by simp
    ultimately show ?thesis by (simp add: deleteNote_filter_def)
  qed
qed

lemma count_list_filter:
  "count_list (filter P xs) y = (if P y then count_list xs y else 0)"
  by (induction xs) auto

lemma filter_index_absent:
  assumes "index < 0 \<or> int (length xs) \<le> index"
  shows "filter_index index xs = xs"
proof -
  have "\<forall>(i, x) \<in> set (enumerate 0 xs). int i \<noteq> index"
    using assms by (auto simp: in_set_enumerate_eq)
  then have "filter (\<lambda>(i, x). int i \<noteq> index) (enumerate 0 xs) = enumerate 0 xs"
    by (intro filter_True) auto
  then show ?thesis by (simp add: filter_index_def)
qed

text \<open>A write-back sets \<open>customer\<close> and \<open>isSaving\<close>, never the list.\<close>

lemma updateCustomerMetadata_keeps_notes:
  "notes_list (notes_run st' (snd (updateCustomerMetadata rt api st L))) = notes_list st'"
  by (simp add: updateCustomerMetadata_def notes_failed_def notes_run_def Let_def
      split: sum.splits option.splits)

lemma updateProductMetadata_keeps_quicklinks:
  "quicklinks (quicklinks_run st' (snd (updateProductMetadata rt api st Q))) = quicklinks st'"
  by (simp add: updateProductMetadata_def quicklinks_failed_def quicklinks_run_def Let_def
      split: sum.splits option.splits)

text \<open>
  Claim C10. In the notes widget, \<open>deleteNote(noteId)\<close> on a list of note objects (no item
  is \<open>null\<close>, on which reading \<open>note.id\<close> throws, in the filter as in the rendering of the
  list, see \<open>deleteNote_filter_null\<close>) computes exactly the notes whose id differs
  from \<open>noteId\<close>: every note with that id is removed, not only the first, every other note
  is kept as often as it occurred, and the order of the kept notes is that of the list.
  This list is what is written back and, on success, committed.
\<close>

theorem C10_deleteNote_removes_every_match:
  assumes "JNull \<notin> set (notes_list st)"
  shows "\<exists>L'. deleteNote_filter noteId (notes_list st) = Inr L'
            \<and> L' = filter (\<lambda>x. get_id x \<noteq> Inr (Some (JNum noteId))) (notes_list st)
            \<and> subseq L' (notes_list st)
            \<and> (\<forall>x \<in> set L'. get_id x \<noteq> Inr (Some (JNum noteId)))
            \<and> (\<forall>x \<in> set (notes_list st). get_id x \<noteq> Inr (Some (JNum noteId))
                   \<longrightarrow> count_list L' x = count_list (notes_list st) x)
            \<and> deleteNote rt api st noteId =
                 snd (updateCustomerMetadata rt api st L')
                 @ (if fst (updateCustomerMetadata rt api st L')
                    then [SetState (SetNotes L')] else [])"
  using deleteNote_filter_eq [OF assms, of noteId]
  by (simp add: count_list_filter deleteNote_def split: prod.splits)

theorem C10_deleteNote_removes_every_match_witness:
  "JNull \<notin> set (notes_list (notes_initial\<lparr>notes_list :=
       [JObj [(''id'', JNum 1)], JObj [(''id'', JNum 2)], JObj [(''id'', JNum 3)],
        JObj [(''id'', JNum 2)]]\<rparr>))
   \<and> deleteNote_filter 2 [JObj [(''id'', JNum 1)], JObj [(''id'', JNum 2)],
                           JObj [(''id'', JNum 3)], JObj [(''id'', JNum 2)]]
       = Inr [JObj [(''id'', JNum 1)], JObj [(''id'', JNum 3)]]"
  using C10_deleteNote_removes_every_match
    [of "notes_initial\<lparr>notes_list :=
       [JObj [(''id'', JNum 1)], JObj [(''id'', JNum 2)], JObj [(''id'', JNum 3)],
        JObj [(''id'', JNum 2)]]\<rparr>" 2]
  by (simp add: notes_initial_def)

text \<open>
  Claim C7. Removing with a key that matches no item changes nothing. In the notes
  widget, for a list of note objects none of which has the id \<open>noteId\<close>, and in the
  quicklinks widget, for an index outside the list, the computed list is the list
  itself; the write-back is performed all the same (one \<open>retrieve\<close>, then one \<open>update\<close>),
  the field it writes is the encoding of the unchanged list, and the list of the widget
  after the call is the list before it.
\<close>

theorem C7_remove_absent_key_is_idempotent:
  assumes "JNull \<notin> set (notes_list st)"
    and "\<forall>x \<in> set (notes_list st). get_id x \<noteq> Inr (Some (JNum noteId))"
    and "customer st = Some c" and "customer_id c \<noteq> []"
    and "retrieve api (customer_id c) = Inr (Some latest)"
    and "index < 0 \<or> int (length (quicklinks pst)) \<le> index"
    and "currentProduct pst = Some p" and "product_id p \<noteq> []"
    and "retrieve papi (product_id p) = Inr (Some platest)"
  shows "deleteNote_filter noteId (notes_list st) = Inr (notes_list st)
       \<and> notes_list (notes_run st (deleteNote rt api st noteId)) = notes_list st
       \<and> retrieves_sent (deleteNote rt api st noteId) = [customer_id c]
       \<and> updates_sent (deleteNote rt api st noteId) =
           [(customer_id c, (spread (customer_metadata latest))
                              (''notes'' \<mapsto> JStr (JSON_stringify rt (JArr (notes_list st)))))]
       \<and> filter_index index (quicklinks pst) = quicklinks pst
       \<and> quicklinks (quicklinks_run pst (handleRemoveQuicklink rt papi pst index)) = quicklinks pst
       \<and> retrieves_sent (handleRemoveQuicklink rt papi pst index) = [product_id p]
       \<and> updates_sent (handleRemoveQuicklink rt papi pst index) =
           [(product_id p, (spread (product_metadata platest))
                             (''quicklinks'' \<mapsto> JStr (JSON_stringify rt (JArr (quicklinks pst)))))]"
proof -
  have f: "deleteNote_filter noteId (notes_list st) = Inr (notes_list st)"
    using deleteNote_filter_eq [OF assms(1), of noteId] assms(2) by simp
  have d: "deleteNote rt api st noteId =
             snd (updateCustomerMetadata rt api st (notes_list st))
             @ (if fst (updateCustomerMetadata rt api st (notes_list st))
                then [SetState (SetNotes (notes_list st))] else [])"
    by (simp add: deleteNote_def f split: prod.splits)
  have g: "filter_index index (quicklinks pst) = quicklinks pst"
    using filter_index_absent [OF assms(6)] .
  have h: "handleRemoveQuicklink rt papi pst index =
             snd (updateProductMetadata rt papi pst (quicklinks pst))
             @ (if fst (updateProductMetadata rt papi pst (quicklinks pst))
                then [SetState (SetQuicklinks (quicklinks pst))] else [])"
    by (simp add: handleRemoveQuicklink_def g Let_def split: prod.splits)
  have n1: "notes_list (notes_run st (deleteNote rt api st noteId)) = notes_list st"
    by (simp add: d notes_run_append notes_run_simps updateCustomerMetadata_keeps_notes)
  have n2: "retrieves_sent (deleteNote rt api st noteId) = [customer_id c]"
    by (simp add: d retrieves_sent_append updateCustomerMetadata_retrieves [OF assms(3,4)])
  have n3: "updates_sent (deleteNote rt api st noteId) =
           [(customer_id c, (spread (customer_metadata latest))
                              (''notes'' \<mapsto> JStr (JSON_stringify rt (JArr (notes_list st)))))]"
    by (simp add: d updates_sent_append updateCustomerMetadata_updates [OF assms(3,4,5)])
  have q1: "quicklinks (quicklinks_run pst (handleRemoveQuicklink rt papi pst index)) = quicklinks pst"
    by (simp add: h quicklinks_run_append quicklinks_run_simps
        updateProductMetadata_keeps_quicklinks)
  have q2: "retrieves_sent (handleRemoveQuicklink rt papi pst index) = [product_id p]"
    by (simp add: h retrieves_sent_append updateProductMetadata_retrieves [OF assms(7,8)])
  have q3: "updates_sent (handleRemoveQuicklink rt papi pst index) =
           [(product_id p, (spread (product_metadata platest))
                             (''quicklinks'' \<mapsto> JStr (JSON_stringify rt (JArr (quicklinks pst)))))]"
    by (simp add: h updates_sent_append updateProductMetadata_updates [OF assms(7,8,9)])
  show ?thesis using f g n1 n2 n3 q1 q2 q3 by simp
qed

theorem C7_remove_absent_key_is_idempotent_witness:
  "JNull \<notin> set (notes_list (notes_loaded [''a'' \<mapsto> JNum 1] [note_value ex_note]))
   \<and> notes_list (notes_loaded [''a'' \<mapsto> JNum 1] [note_value ex_note]) = [note_value ex_note]
   \<and> get_id (note_value ex_note) = Inr (Some (JNum 1699999999000))
   \<and> (3 < 0 \<or> int (length (quicklinks (quicklinks_loaded Map.empty
                                [quicklink_value ex_quicklink]))) \<le> (3::int))
   \<and> notes_list (notes_run (notes_loaded [''a'' \<mapsto> JNum 1] [note_value ex_note])
        (deleteNote ex_runtime (customer_remote [''a'' \<mapsto> JNum 1])
           (notes_loaded [''a'' \<mapsto> JNum 1] [note_value ex_note]) 5)) = [note_value ex_note]
   \<and> retrieves_sent (deleteNote ex_runtime (customer_remote [''a'' \<mapsto> JNum 1])
           (notes_loaded [''a'' \<mapsto> JNum 1] [note_value ex_note]) 5) = [''cus_1'']
   \<and> map fst (updates_sent (deleteNote ex_runtime (customer_remote [''a'' \<mapsto> JNum 1])
           (notes_loaded [''a'' \<mapsto> JNum 1] [note_value ex_note]) 5)) = [''cus_1'']
   \<and> snd (hd (updates_sent (deleteNote ex_runtime (customer_remote [''a'' \<mapsto> JNum 1])
           (notes_loaded [''a'' \<mapsto> JNum 1] [note_value ex_note]) 5))) ''notes''
       = Some (JStr (stringify (JArr [note_value ex_note])))
   \<and> quicklinks (quicklinks_run (quicklinks_loaded Map.empty [quicklink_value ex_quicklink])
        (handleRemoveQuicklink ex_runtime (product_remote Map.empty)
           (quicklinks_loaded Map.empty [quicklink_value ex_quicklink]) 3))
       = [quicklink_value ex_quicklink]
   \<and> retrieves_sent (handleRemoveQuicklink ex_runtime (product_remote Map.empty)
           (quicklinks_loaded Map.empty [quicklink_value ex_quicklink]) 3) = [''prod_1'']
   \<and> snd (hd (updates_sent (handleRemoveQuicklink ex_runtime (product_remote Map.empty)
           (quicklinks_loaded Map.empty [quicklink_value ex_quicklink]) 3))) ''quicklinks''
       = Some (JStr (stringify (JArr [quicklink_value ex_quicklink])))"
proof -
  let ?st = "notes_loaded [''a'' \<mapsto> JNum 1] [note_value ex_note]"
  let ?pst = "quicklinks_loaded Map.empty [quicklink_value ex_quicklink]"
  have h1: "JNull \<notin> set (notes_list ?st)"
    by (simp add: notes_loaded_def note_value_def)
  have h2: "\<forall>x \<in> set (notes_list ?st). get_id x \<noteq> Inr (Some (JNum 5))"
    by (simp add: notes_loaded_def note_value_def ex_note_def)
  have h3: "customer ?st = Some (ex_customer [''a'' \<mapsto> JNum 1])"
    by (simp add: notes_loaded_def)
  have h4: "customer_id (ex_customer [''a'' \<mapsto> JNum 1]) \<noteq> []"
    by (simp add: ex_customer_def)
  have h5: "retrieve (customer_remote [''a'' \<mapsto> JNum 1])
              (customer_id (ex_customer [''a'' \<mapsto> JNum 1]))
            = Inr (Some (ex_customer [''a'' \<mapsto> JNum 1]))"
    by (simp add: customer_remote_def)
  have h6: "3 < 0 \<or> int (length (quicklinks ?pst)) \<le> (3::int)"
    by (simp add: quicklinks_loaded_def)
  have h7: "currentProduct ?pst = Some (ex_product Map.empty)"
    by (simp add: quicklinks_loaded_def)
  have h8: "product_id (ex_product Map.empty) \<noteq> []"
    by (simp add: ex_product_def)
  have h9: "retrieve (product_remote Map.empty) (product_id (ex_product Map.empty))
            = Inr (Some (ex_product Map.empty))"
    by (simp add: product_remote_def)
  have st: "JSON_stringify ex_runtime = stringify"
    by (simp add: ex_runtime_def js_runtime_def)
  have l: "notes_list ?st = [note_value ex_note]" "quicklinks ?pst = [quicklink_value ex_quicklink]"
    by (simp_all add: notes_loaded_def quicklinks_loaded_def)
  have g: "get_id (note_value ex_note) = Inr (Some (JNum 1699999999000))"
    by (simp add: note_value_def ex_note_def)
  show ?thesis
    using h1 h6 g
      C7_remove_absent_key_is_idempotent [OF h1 h2 h3 h4 h5 h6 h7 h8 h9, of ex_runtime]
    by (simp add: st l ex_customer_def ex_product_def)
qed

section \<open>Failure of a write-back\<close>

text \<open>
  When each write-back reports success: in the notes widget only when the update
  resolved with a customer; in the quicklinks widget as soon as the update resolved.
\<close>

lemma updateCustomerMetadata_success:
  "fst (updateCustomerMetadata rt api st L) \<longleftrightarrow>
     (\<exists>c latest updated. customer st = Some c \<and> customer_id c \<noteq> []
        \<and> retrieve api (customer_id c) = Inr (Some latest)
        \<and> update api (customer_id c)
             ((spread (customer_metadata latest))
                (''notes'' \<mapsto> JStr (JSON_stringify rt (JArr L)))) = Inr (Some updated))"
  by (auto simp: updateCustomerMetadata_def notes_failed_def Let_def
      split: sum.splits option.splits)

lemma updateProductMetadata_success:
  "fst (updateProductMetadata rt api st Q) \<longleftrightarrow>
     (\<exists>p latest response. currentProduct st = Some p \<and> product_id p \<noteq> []
        \<and> retrieve api (product_id p) = Inr (Some latest)
        \<and> update api (product_id p)
             ((spread (product_metadata latest))
                (''quicklinks'' \<mapsto> JStr (JSON_stringify rt (JArr Q)))) = Inr response)"
  by (auto simp: updateProductMetadata_def quicklinks_failed_def Let_def
      split: sum.splits option.splits)

text \<open>No exception leaves a write-back: every one is caught and turned into \<open>false\<close>.\<close>

lemma updateCustomerMetadata_uncaught:
  "uncaught (snd (updateCustomerMetadata rt api st L)) = []"
  by (simp add: updateCustomerMetadata_def notes_failed_def Let_def
      split: sum.splits option.splits)

lemma updateProductMetadata_uncaught:
  "uncaught (snd (updateProductMetadata rt api st Q)) = []"
  by (simp add: updateProductMetadata_def quicklinks_failed_def Let_def
      split: sum.splits option.splits)

subsection \<open>The list changes only by a commit\<close>

lemma notes_apply_keep:
  "\<forall>ns. e \<noteq> SetState (SetNotes ns) \<Longrightarrow> notes_list (notes_apply st e) = notes_list st"
proof (cases e)
  case (SetState u)
  assume "\<forall>ns. e \<noteq> SetState (SetNotes ns)"
  with SetState show ?thesis by (cases u) auto
qed auto

lemma notes_run_keep:
  "\<forall>e \<in> set evs. \<forall>ns. e \<noteq> SetState (SetNotes ns)
     \<Longrightarrow> notes_list (notes_run st evs) = notes_list st"
  by (induction evs arbitrary: st) (simp_all add: notes_run_simps notes_apply_keep)

lemma notes_seen_keep:
  assumes "\<forall>e \<in> set evs. \<forall>ns. e \<noteq> SetState (SetNotes ns)"
  shows "\<forall>s \<in> set (notes_seen st evs). notes_list s = notes_list st"
proof
  fix s assume "s \<in> set (notes_seen st evs)"
  then obtain n where "s = notes_run st (take n evs)"
    unfolding notes_seen_def set_map by blast
  moreover have "\<forall>e \<in> set (take n evs). \<forall>ns. e \<noteq> SetState (SetNotes ns)"
    using assms by (meson in_set_takeD)
  ultimately show "notes_list s = notes_list st" by (simp add: notes_run_keep)
qed

lemma updateCustomerMetadata_sets_no_notes:
  "\<forall>e \<in> set (snd (updateCustomerMetadata rt api st L)). \<forall>ns. e \<noteq> SetState (SetNotes ns)"
  by (simp add: updateCustomerMetadata_def notes_failed_def Let_def
      split: sum.splits option.splits)

lemma quicklinks_apply_keep:
  "\<forall>qs. e \<noteq> SetState (SetQuicklinks qs) \<Longrightarrow> quicklinks (quicklinks_apply st e) = quicklinks st"
proof (cases e)
  case (SetState u)
  assume "\<forall>qs. e \<noteq> SetState (SetQuicklinks qs)"
  with SetState show ?thesis by (cases u) auto
qed auto

lemma quicklinks_run_keep:
  "\<forall>e \<in> set evs. \<forall>qs. e \<noteq> SetState (SetQuicklinks qs)
     \<Longrightarrow> quicklinks (quicklinks_run st evs) = quicklinks st"
  by (induction evs arbitrary: st) (simp_all add: quicklinks_run_simps quicklinks_apply_keep)

lemma quicklinks_seen_keep:
  assumes "\<forall>e \<in> set evs. \<forall>qs. e \<noteq> SetState (SetQuicklinks qs)"
  shows "\<forall>s \<in> set (quicklinks_seen st evs). quicklinks s = quicklinks st"
proof
  fix s assume "s \<in> set (quicklinks_seen st evs)"
  then obtain n where "s = quicklinks_run st (take n evs)"
    unfolding quicklinks_seen_def set_map by blast
  moreover have "\<forall>e \<in> set (take n evs). \<forall>qs. e \<noteq> SetState (SetQuicklinks qs)"
    using assms by (meson in_set_takeD)
  ultimately show "quicklinks s = quicklinks st" by (simp add: quicklinks_run_keep)
qed

lemma updateProductMetadata_sets_no_quicklinks:
  "\<forall>e \<in> set (snd (updateProductMetadata rt api st Q)). \<forall>qs. e \<noteq> SetState (SetQuicklinks qs)"
  by (simp add: updateProductMetadata_def quicklinks_failed_def Let_def
      split: sum.splits option.splits)

text \<open>
  The notes widget: when the write-back of a mutation returns \<open>false\<close>, or the mutation
  throws before it, every state on the way holds the list as it was; when it returns
  \<open>true\<close>, the final state holds the new list.
\<close>

lemma addNote_failed:
  assumes "\<not> fst (updateCustomerMetadata rt api st
                    (notes_list st @ [note_value (newNoteObj rt st)]))"
  shows "\<forall>s \<in> set (notes_seen st (addNote rt api st)). notes_list s = notes_list st"
proof (cases "trim (newNote st) = []")
  case True
  then show ?thesis by (simp add: addNote_def notes_seen_def notes_run_simps)
next
  case False
  then have "addNote rt api st =
      snd (updateCustomerMetadata rt api st (notes_list st @ [note_value (newNoteObj rt st)]))"
    using assms by (simp add: addNote_def Let_def case_prod_beta)
  then show ?thesis
    using notes_seen_keep [OF updateCustomerMetadata_sets_no_notes] by simp
qed

lemma addNote_committed:
  assumes "trim (newNote st) \<noteq> []"
    and "fst (updateCustomerMetadata rt api st
                (notes_list st @ [note_value (newNoteObj rt st)]))"
  shows "notes_list (notes_run st (addNote rt api st))
           = notes_list st @ [note_value (newNoteObj rt st)]"
  using assms
  by (simp add: addNote_def Let_def case_prod_beta notes_run_append notes_run_simps
      updateCustomerMetadata_keeps_notes)

lemma deleteNote_failed:
  assumes "\<forall>L'. deleteNote_filter noteId (notes_list st) = Inr L'
             \<longrightarrow> \<not> fst (updateCustomerMetadata rt api st L')"
  shows "\<forall>s \<in> set (notes_seen st (deleteNote rt api st noteId)). notes_list s = notes_list st"
proof (cases "deleteNote_filter noteId (notes_list st)")
  case (Inl e)
  then have "deleteNote rt api st noteId = [Uncaught e]" by (simp add: deleteNote_def)
  then show ?thesis using notes_seen_keep [of "[Uncaught e]" st] by simp
next
  case (Inr L')
  then have "deleteNote rt api st noteId = snd (updateCustomerMetadata rt api st L')"
    using assms by (simp add: deleteNote_def case_prod_beta)
  then show ?thesis
    using notes_seen_keep [OF updateCustomerMetadata_sets_no_notes] by simp
qed

lemma saveEdit_failed:
  assumes "\<forall>L'. array_map (saveEdit_note rt st noteId) (notes_list st) = Inr L'
             \<longrightarrow> \<not> fst (updateCustomerMetadata rt api st L')"
  shows "\<forall>s \<in> set (notes_seen st (saveEdit rt api st noteId)). notes_list s = notes_list st"
proof (cases "array_map (saveEdit_note rt st noteId) (notes_list st)")
  case (Inl e)
  then have "saveEdit rt api st noteId = [Uncaught e]" by (simp add: saveEdit_def)
  then show ?thesis using notes_seen_keep [of "[Uncaught e]" st] by simp
next
  case (Inr L')
  then have "saveEdit rt api st noteId = snd (updateCustomerMetadata rt api st L')"
    using assms by (simp add: saveEdit_def case_prod_beta)
  then show ?thesis
    using notes_seen_keep [OF updateCustomerMetadata_sets_no_notes] by simp
qed

text \<open>
  The quicklinks widget: the same holds whenever its write-back returns \<open>false\<close>, which
  it does when the re-fetch or the update rejects.
\<close>

lemma handleAddQuicklink_failed:
  assumes "\<not> fst (updateProductMetadata rt api st
                    (quicklinks st @ [quicklink_value (newQuicklink st)]))"
  shows "\<forall>s \<in> set (quicklinks_seen st (handleAddQuicklink rt api st)).
           quicklinks s = quicklinks st"
proof (cases "trim (link st) = [] \<or> (linkType st = Custom_link \<and> trim (title st) = [])")
  case True
  then have "handleAddQuicklink rt api st = []" by (simp add: handleAddQuicklink_def)
  then show ?thesis using quicklinks_seen_keep [of "[]" st] by simp
next
  case False
  then have "handleAddQuicklink rt api st =
      snd (updateProductMetadata rt api st (quicklinks st @ [quicklink_value (newQuicklink st)]))"
    using assms by (auto simp: handleAddQuicklink_def Let_def case_prod_beta)
  then show ?thesis
    using quicklinks_seen_keep [OF updateProductMetadata_sets_no_quicklinks] by simp
qed

lemma handleRemoveQuicklink_failed:
  assumes "\<not> fst (updateProductMetadata rt api st (filter_index index (quicklinks st)))"
  shows "\<forall>s \<in> set (quicklinks_seen st (handleRemoveQuicklink rt api st index)).
           quicklinks s = quicklinks st"
proof -
  have "handleRemoveQuicklink rt api st index =
      snd (updateProductMetadata rt api st (filter_index index (quicklinks st)))"
    using assms by (simp add: handleRemoveQuicklink_def Let_def case_prod_beta)
  then show ?thesis
    using quicklinks_seen_keep [OF updateProductMetadata_sets_no_quicklinks] by simp
qed

lemma updateProductMetadata_rejected:
  assumes "(\<exists>e. retrieve api i = Inl e) \<or> (\<forall>m. \<exists>e. update api i m = Inl e)"
    and "currentProduct st = Some p" and "product_id p = i"
  shows "\<not> fst (updateProductMetadata rt api st Q)"
proof
  assume "fst (updateProductMetadata rt api st Q)"
  then obtain latest response m where
    "retrieve api i = Inr (Some latest)" "update api i m = Inr response"
    using assms(2,3) unfolding updateProductMetadata_success by auto
  with assms(1) show False by (metis sum.distinct(1))
qed

text \<open>
  The password widget: unless the update resolved with a customer, the option shown
  stays what it was.
\<close>

lemma handleOptionChange_failed:
  assumes "\<forall>i m u. update api i m \<noteq> Inr (Some u)"
  shows "passwordOption (password_run st (handleOptionChange api st b)) = passwordOption st"
  using assms
  by (simp add: handleOptionChange_def password_run_def Let_def
      split: option.splits sum.splits)

text \<open>
  Claim C3, on the input where the code departs from it: a quicklink is added while the
  update resolves without a product (an unconfirmed response). The write-back of the
  quicklinks widget does not look at the response, so the new quicklink is committed to
  the list. This holds for every run time and whatever the re-fetch returned as the
  product's metadata.
\<close>

theorem C3_quicklinks_commit_on_unconfirmed_update:
  "quicklinks (quicklinks_run (quicklinks_loaded m [])
      (handleAddQuicklink rt (update_unconfirmed (product_remote m')) (quicklinks_loaded m [])))
   = [quicklink_value \<lparr>ql_title = ''New'', ql_link = ''/new'', ql_type = Custom_link\<rparr>]"
  by (simp add: handleAddQuicklink_def updateProductMetadata_def update_unconfirmed_def
      product_remote_def quicklinks_loaded_def ex_product_def newQuicklink_def trim_def
      is_space_def quicklinks_run_def Let_def)

text \<open>
  Claim C5, on the same input: with an update that resolves without an entity, the
  write-back of the quicklinks widget returns \<open>true\<close>, where that of the notes widget
  returns \<open>false\<close>.
\<close>

theorem C5_quicklinks_success_on_unconfirmed_update:
  "fst (updateProductMetadata rt (update_unconfirmed (product_remote m'))
         (quicklinks_loaded m []) Q) = True
   \<and> fst (updateCustomerMetadata rt (update_unconfirmed (customer_remote m'))
         (notes_loaded m []) L) = False"
  by (simp add: updateProductMetadata_def updateCustomerMetadata_def update_unconfirmed_def
      product_remote_def customer_remote_def quicklinks_loaded_def notes_loaded_def
      ex_product_def ex_customer_def notes_failed_def Let_def)

section \<open>Reporting a failed write-back\<close>

text \<open>
  Claim C4 as stated fails in the quicklinks widget: with a re-fetch that rejects,
  adding a quicklink fails, the failure is logged, and no alert is raised.
\<close>

theorem C4_quicklinks_failure_without_alert:
  "fst (updateProductMetadata ex_runtime (retrieve_rejected (product_remote Map.empty))
         (quicklinks_loaded Map.empty [])
         (quicklinks (quicklinks_loaded Map.empty [])
            @ [quicklink_value (newQuicklink (quicklinks_loaded Map.empty []))])) = False
   \<and> alerts (handleAddQuicklink ex_runtime (retrieve_rejected (product_remote Map.empty))
         (quicklinks_loaded Map.empty [])) = []
   \<and> errors_logged (handleAddQuicklink ex_runtime (retrieve_rejected (product_remote Map.empty))
         (quicklinks_loaded Map.empty []))
       = [(''Error updating quicklinks:'', Rejection ''Network Error'')]"
  by (simp add: handleAddQuicklink_def updateProductMetadata_def retrieve_rejected_def
      product_remote_def quicklinks_loaded_def ex_product_def newQuicklink_def trim_def
      is_space_def quicklinks_failed_def Let_def)

text \<open>
  Claim C4, amended. A write-back that was started (the widget holds an entity with an
  id) and failed is reported as follows. In the notes widget it is logged once and
  surfaced by exactly one alert, \<open>Failed to save notes\<close>; a successful one raises none.
  In the quicklinks widget it is logged once and no alert is ever raised. In the
  password widget a failed update is logged once and no alert is ever raised.
\<close>

theorem C4_alert_only_in_notes_widget:
  assumes "customer st = Some c" and "customer_id c \<noteq> []"
    and "currentProduct pst = Some p" and "product_id p \<noteq> []"
    and "pw_customer wst = Some wc" and "customer_id wc \<noteq> []"
  shows "(\<not> fst (updateCustomerMetadata rt api st L) \<longrightarrow>
            alerts (snd (updateCustomerMetadata rt api st L)) = [''Failed to save notes'']
            \<and> (\<exists>e. errors_logged (snd (updateCustomerMetadata rt api st L))
                      = [(''Error saving notes:'', e)]))
       \<and> (fst (updateCustomerMetadata rt api st L) \<longrightarrow>
            alerts (snd (updateCustomerMetadata rt api st L)) = []
            \<and> errors_logged (snd (updateCustomerMetadata rt api st L)) = [])
       \<and> alerts (snd (updateProductMetadata rt papi pst Q)) = []
       \<and> (\<not> fst (updateProductMetadata rt papi pst Q) \<longrightarrow>
            (\<exists>e. errors_logged (snd (updateProductMetadata rt papi pst Q))
                    = [(''Error updating quicklinks:'', e)]))
       \<and> alerts (handleOptionChange wapi wst b) = []
       \<and> ((\<forall>u. update wapi (customer_id wc)
                  ((spread (customer_metadata wc))(''can_change_password'' \<mapsto> JBool b))
                \<noteq> Inr (Some u)) \<longrightarrow>
            (\<exists>e. errors_logged (handleOptionChange wapi wst b)
                    = [(''Error updating password restriction:'', e)]))"
proof -
  have n: "(\<not> fst (updateCustomerMetadata rt api st L) \<longrightarrow>
            alerts (snd (updateCustomerMetadata rt api st L)) = [''Failed to save notes'']
            \<and> (\<exists>e. errors_logged (snd (updateCustomerMetadata rt api st L))
                      = [(''Error saving notes:'', e)]))
       \<and> (fst (updateCustomerMetadata rt api st L) \<longrightarrow>
            alerts (snd (updateCustomerMetadata rt api st L)) = []
            \<and> errors_logged (snd (updateCustomerMetadata rt api st L)) = [])"
    using assms(1,2)
    by (simp add: updateCustomerMetadata_def notes_failed_def Let_def
        split: sum.splits option.splits)
  have q: "alerts (snd (updateProductMetadata rt papi pst Q)) = []
       \<and> (\<not> fst (updateProductMetadata rt papi pst Q) \<longrightarrow>
            (\<exists>e. errors_logged (snd (updateProductMetadata rt papi pst Q))
                    = [(''Error updating quicklinks:'', e)]))"
    using assms(3,4)
    by (simp add: updateProductMetadata_def quicklinks_failed_def Let_def
        split: sum.splits option.splits)
  have w: "alerts (handleOptionChange wapi wst b) = []
       \<and> ((\<forall>u. update wapi (customer_id wc)
                  ((spread (customer_metadata wc))(''can_change_password'' \<mapsto> JBool b))
                \<noteq> Inr (Some u)) \<longrightarrow>
            (\<exists>e. errors_logged (handleOptionChange wapi wst b)
                    = [(''Error updating password restriction:'', e)]))"
    using assms(5,6)
    by (simp add: handleOptionChange_def Let_def split: sum.splits option.splits)
  show ?thesis using n q w by simp
qed

theorem C4_alert_only_in_notes_widget_witness:
  "customer (notes_loaded Map.empty []) = Some (ex_customer Map.empty)
   \<and> customer_id (ex_customer Map.empty) \<noteq> []
   \<and> currentProduct (quicklinks_loaded Map.empty []) = Some (ex_product Map.empty)
   \<and> product_id (ex_product Map.empty) \<noteq> []
   \<and> pw_customer (password_loaded Map.empty) = Some (ex_customer Map.empty)
   \<and> \<not> fst (updateCustomerMetadata ex_runtime (update_rejected (customer_remote Map.empty))
            (notes_loaded Map.empty []) [note_value ex_note])
   \<and> alerts (snd (updateCustomerMetadata ex_runtime (update_rejected (customer_remote Map.empty))
            (notes_loaded Map.empty []) [note_value ex_note])) = [''Failed to save notes'']
   \<and> \<not> fst (updateProductMetadata ex_runtime (retrieve_rejected (product_remote Map.empty))
            (quicklinks_loaded Map.empty []) [quicklink_value ex_quicklink])
   \<and> alerts (snd (updateProductMetadata ex_runtime (retrieve_rejected (product_remote Map.empty))
            (quicklinks_loaded Map.empty []) [quicklink_value ex_quicklink])) = []
   \<and> alerts (handleOptionChange (update_unconfirmed (customer_remote Map.empty))
            (password_loaded Map.empty) False) = []"
proof -
  have h1: "customer (notes_loaded Map.empty []) = Some (ex_customer Map.empty)"
    by (simp add: notes_loaded_def)
  have h2: "customer_id (ex_customer Map.empty) \<noteq> []"
    by (simp add: ex_customer_def)
  have h3: "currentProduct (quicklinks_loaded Map.empty []) = Some (ex_product Map.empty)"
    by (simp add: quicklinks_loaded_def)
  have h4: "product_id (ex_product Map.empty) \<noteq> []"
    by (simp add: ex_product_def)
  have h5: "pw_customer (password_loaded Map.empty) = Some (ex_customer Map.empty)"
    by (simp add: password_loaded_def)
  have f1: "\<not> fst (updateCustomerMetadata ex_runtime (update_rejected (customer_remote Map.empty))
            (notes_loaded Map.empty []) [note_value ex_note])"
    by (simp add: updateCustomerMetadata_success update_rejected_def customer_remote_def)
  have f2: "\<not> fst (updateProductMetadata ex_runtime (retrieve_rejected (product_remote Map.empty))
            (quicklinks_loaded Map.empty []) [quicklink_value ex_quicklink])"
    by (simp add: updateProductMetadata_success retrieve_rejected_def product_remote_def)
  show ?thesis
    using h1 h2 h3 h4 h5 f1 f2
      C4_alert_only_in_notes_widget [OF h1 h2 h3 h4 h5 h2,
        of ex_runtime "update_rejected (customer_remote Map.empty)" "[note_value ex_note]"
           "retrieve_rejected (product_remote Map.empty)" "[quicklink_value ex_quicklink]"
           "update_unconfirmed (customer_remote Map.empty)" False]
    by simp
qed

section \<open>Loading\<close>

lemma parse_text_not_json: "parse_text ''not-json'' = None"
  by code_simp

lemma parse_text_empty_object: "parse_text ''{}'' = Some (JObj [])"
  by code_simp

text \<open>
  Claim C6 as stated fails where the field holds valid JSON that is not an array: for
  the field \<open>{}\<close> the list is emptied, and nothing is logged.
\<close>

theorem C6_non_array_is_not_logged:
  "JSON_parse ex_runtime (JStr ''{}'') = Inr (JObj [])
   \<and> notes_list (notes_run notes_initial
        (fetchCustomer ex_runtime (customer_remote [''notes'' \<mapsto> JStr ''{}'']) ''cus_1'')) = []
   \<and> errors_logged
        (fetchCustomer ex_runtime (customer_remote [''notes'' \<mapsto> JStr ''{}'']) ''cus_1'') = []"
  by (simp add: fetchCustomer_def parse_notes_def notes_field_def customer_remote_def
      ex_customer_def ex_runtime_def js_runtime_def parse_text_empty_object notes_run_def
      notes_initial_def)

text \<open>
  Claim C6, amended. When the entity is fetched and its synchronized field is present:
  if the field is truthy and \<open>JSON.parse\<close> throws on it, the list is set to empty and the
  error is logged once; if the field is truthy and the parsed value is not an array, the
  list is set to empty and nothing is logged; if the field is falsy (the empty string,
  for one) it is not parsed, nothing is logged, and the list of the freshly mounted
  widget stays empty. In no case does an exception leave \<open>fetchCustomer\<close> or
  \<open>loadProduct\<close>.
\<close>

theorem C6_decode_failure_gives_empty_list:
  assumes "retrieve api i = Inr c" and "notes_field c = Some v"
    and "retrieve papi j = Inr p" and "quicklinks_field p = Some w"
  shows "(truthy v \<and> JSON_parse rt v = Inl e \<longrightarrow>
            notes_list (notes_run st (fetchCustomer rt api i)) = []
            \<and> errors_logged (fetchCustomer rt api i) = [(''Error parsing notes:'', e)])
       \<and> (truthy v \<and> JSON_parse rt v = Inr d \<and> (\<forall>xs. d \<noteq> JArr xs) \<longrightarrow>
            notes_list (notes_run st (fetchCustomer rt api i)) = []
            \<and> errors_logged (fetchCustomer rt api i) = [])
       \<and> (\<not> truthy v \<longrightarrow>
            notes_list (notes_run notes_initial (fetchCustomer rt api i)) = []
            \<and> errors_logged (fetchCustomer rt api i) = [])
       \<and> uncaught (fetchCustomer rt api i) = []
       \<and> (truthy w \<and> JSON_parse rt w = Inl e' \<longrightarrow>
            quicklinks (quicklinks_run pst (loadProduct rt papi j)) = []
            \<and> errors_logged (loadProduct rt papi j) = [(''Error parsing quicklinks:'', e')])
       \<and> (truthy w \<and> JSON_parse rt w = Inr d' \<and> (\<forall>xs. d' \<noteq> JArr xs) \<longrightarrow>
            quicklinks (quicklinks_run pst (loadProduct rt papi j)) = []
            \<and> errors_logged (loadProduct rt papi j) = [])
       \<and> (\<not> truthy w \<longrightarrow>
            quicklinks (quicklinks_run quicklinks_initial (loadProduct rt papi j)) = []
            \<and> errors_logged (loadProduct rt papi j) = [])
       \<and> uncaught (loadProduct rt papi j) = []"
proof -
  have arr: "(case x of JArr xs \<Rightarrow> xs | _ \<Rightarrow> []) = []" if "\<forall>xs. x \<noteq> JArr xs" for x
    using that by (cases x) auto
  have n: "(truthy v \<and> JSON_parse rt v = Inl e \<longrightarrow>
            notes_list (notes_run st (fetchCustomer rt api i)) = []
            \<and> errors_logged (fetchCustomer rt api i) = [(''Error parsing notes:'', e)])
       \<and> (truthy v \<and> JSON_parse rt v = Inr d \<and> (\<forall>xs. d \<noteq> JArr xs) \<longrightarrow>
            notes_list (notes_run st (fetchCustomer rt api i)) = []
            \<and> errors_logged (fetchCustomer rt api i) = [])
       \<and> (\<not> truthy v \<longrightarrow>
            notes_list (notes_run notes_initial (fetchCustomer rt api i)) = []
            \<and> errors_logged (fetchCustomer rt api i) = [])
       \<and> uncaught (fetchCustomer rt api i) = []"
    using assms(1,2) arr [of d]
    by (auto simp: fetchCustomer_def parse_notes_def notes_run_def notes_initial_def
        split: sum.splits)
  have q: "(truthy w \<and> JSON_parse rt w = Inl e' \<longrightarrow>
            quicklinks (quicklinks_run pst (loadProduct rt papi j)) = []
            \<and> errors_logged (loadProduct rt papi j) = [(''Error parsing quicklinks:'', e')])
       \<and> (truthy w \<and> JSON_parse rt w = Inr d' \<and> (\<forall>xs. d' \<noteq> JArr xs) \<longrightarrow>
            quicklinks (quicklinks_run pst (loadProduct rt papi j)) = []
            \<and> errors_logged (loadProduct rt papi j) = [])
       \<and> (\<not> truthy w \<longrightarrow>
            quicklinks (quicklinks_run quicklinks_initial (loadProduct rt papi j)) = []
            \<and> errors_logged (loadProduct rt papi j) = [])
       \<and> uncaught (loadProduct rt papi j) = []"
    using assms(3,4) arr [of d']
    by (auto simp: loadProduct_def parse_quicklinks_def quicklinks_run_def
        quicklinks_initial_def split: sum.splits)
  show ?thesis using n q by simp
qed

theorem C6_decode_failure_gives_empty_list_witness:
  "retrieve (customer_remote [''notes'' \<mapsto> JStr ''not-json'']) ''cus_1''
     = Inr (Some (ex_customer [''notes'' \<mapsto> JStr ''not-json'']))
   \<and> notes_field (Some (ex_customer [''notes'' \<mapsto> JStr ''not-json''])) = Some (JStr ''not-json'')
   \<and> retrieve (product_remote [''quicklinks'' \<mapsto> JStr ''{}'']) ''prod_1''
     = Inr (Some (ex_product [''quicklinks'' \<mapsto> JStr ''{}'']))
   \<and> quicklinks_field (Some (ex_product [''quicklinks'' \<mapsto> JStr ''{}''])) = Some (JStr ''{}'')
   \<and> truthy (JStr ''not-json'')
   \<and> JSON_parse ex_runtime (JStr ''not-json'') = Inl SyntaxError
   \<and> notes_list (notes_run (notes_loaded Map.empty [note_value ex_note])
        (fetchCustomer ex_runtime (customer_remote [''notes'' \<mapsto> JStr ''not-json''])
           ''cus_1'')) = []
   \<and> errors_logged (fetchCustomer ex_runtime
        (customer_remote [''notes'' \<mapsto> JStr ''not-json'']) ''cus_1'')
       = [(''Error parsing notes:'', SyntaxError)]
   \<and> truthy (JStr ''{}'')
   \<and> JSON_parse ex_runtime (JStr ''{}'') = Inr (JObj [])
   \<and> quicklinks (quicklinks_run (quicklinks_loaded Map.empty [quicklink_value ex_quicklink])
        (loadProduct ex_runtime (product_remote [''quicklinks'' \<mapsto> JStr ''{}''])
           ''prod_1'')) = []
   \<and> errors_logged (loadProduct ex_runtime
        (product_remote [''quicklinks'' \<mapsto> JStr ''{}'']) ''prod_1'') = []"
proof -
  have h1: "retrieve (customer_remote [''notes'' \<mapsto> JStr ''not-json'']) ''cus_1''
     = Inr (Some (ex_customer [''notes'' \<mapsto> JStr ''not-json'']))"
    by (simp add: customer_remote_def)
  have h2: "notes_field (Some (ex_customer [''notes'' \<mapsto> JStr ''not-json'']))
     = Some (JStr ''not-json'')"
    by (simp add: notes_field_def ex_customer_def)
  have h3: "retrieve (product_remote [''quicklinks'' \<mapsto> JStr ''{}'']) ''prod_1''
     = Inr (Some (ex_product [''quicklinks'' \<mapsto> JStr ''{}'']))"
    by (simp add: product_remote_def)
  have h4: "quicklinks_field (Some (ex_product [''quicklinks'' \<mapsto> JStr ''{}'']))
     = Some (JStr ''{}'')"
    by (simp add: quicklinks_field_def ex_product_def)
  have p1: "JSON_parse ex_runtime (JStr ''not-json'') = Inl SyntaxError"
    by (simp add: ex_runtime_def js_runtime_def parse_text_not_json)
  have p2: "JSON_parse ex_runtime (JStr ''{}'') = Inr (JObj [])"
    by (simp add: ex_runtime_def js_runtime_def parse_text_empty_object)
  show ?thesis
    using h1 h2 h3 h4 p1 p2
      C6_decode_failure_gives_empty_list [OF h1 h2 h3 h4,
        of ex_runtime SyntaxError "notes_loaded Map.empty [note_value ex_note]" "JObj []"
           SyntaxError "quicklinks_loaded Map.empty [quicklink_value ex_quicklink]" "JObj []"]
    by simp
qed

lemma password_run_effect:
  assumes "customerId \<noteq> []" and "retrieve api customerId = Inr c"
  shows "password_run st (passwordRestriction_effect api customerId) =
           st\<lparr>pw_customer := c, passwordOption := canChangePassword c\<rparr>"
  using assms by (simp add: passwordRestriction_effect_def password_run_def)

text \<open>
  Claim C9. When the password widget has fetched the customer, the option it shows is
  \<open>true\<close> whenever the response holds no customer, the customer has no metadata bag, or
  the bag has no key \<open>can_change_password\<close>; and it is the stored flag whenever the bag
  holds a boolean under that key.
\<close>

theorem C9_flag_defaults_to_true:
  assumes "customerId \<noteq> []" and "retrieve api customerId = Inr c"
  shows "((c = None
           \<or> (\<exists>cu. c = Some cu
                \<and> (customer_metadata cu = None
                    \<or> (\<exists>m. customer_metadata cu = Some m \<and> m ''can_change_password'' = None))))
          \<longrightarrow> passwordOption (password_run st (passwordRestriction_effect api customerId))
                = JBool True)
       \<and> (\<forall>cu m b. c = Some cu \<and> customer_metadata cu = Some m
                    \<and> m ''can_change_password'' = Some (JBool b)
          \<longrightarrow> passwordOption (password_run st (passwordRestriction_effect api customerId))
                = JBool b)"
  using assms
  by (auto simp add: password_run_effect canChangePassword_def flag_field_def)

theorem C9_flag_defaults_to_true_witness:
  "''cus_1'' \<noteq> []
   \<and> retrieve (customer_remote [''notes'' \<mapsto> JStr ''[]'']) ''cus_1''
       = Inr (Some (ex_customer [''notes'' \<mapsto> JStr ''[]'']))
   \<and> customer_metadata (ex_customer [''notes'' \<mapsto> JStr ''[]'']) = Some [''notes'' \<mapsto> JStr ''[]'']
   \<and> [''notes'' \<mapsto> JStr ''[]''] ''can_change_password'' = None
   \<and> passwordOption (password_run (password_initial\<lparr>passwordOption := JBool False\<rparr>)
        (passwordRestriction_effect (customer_remote [''notes'' \<mapsto> JStr ''[]'']) ''cus_1''))
       = JBool True"
proof -
  have h1: "''cus_1'' \<noteq> []" by simp
  have h2: "retrieve (customer_remote [''notes'' \<mapsto> JStr ''[]'']) ''cus_1''
       = Inr (Some (ex_customer [''notes'' \<mapsto> JStr ''[]'']))"
    by (simp add: customer_remote_def)
  have h3: "customer_metadata (ex_customer [''notes'' \<mapsto> JStr ''[]''])
       = Some [''notes'' \<mapsto> JStr ''[]'']"
    by (simp add: ex_customer_def)
  show ?thesis
    using h1 h2 h3
      C9_flag_defaults_to_true [OF h1 h2, of "password_initial\<lparr>passwordOption := JBool False\<rparr>"]
    by simp
qed

section \<open>Setting the password option\<close>

text \<open>
  What \<open>handleOptionChange\<close> sends: no \<open>retrieve\<close>, and one \<open>update\<close> with the metadata of
  the customer held in the widget's state, the flag replaced.
\<close>

lemma handleOptionChange_requests:
  assumes "pw_customer st = Some c" and "customer_id c \<noteq> []"
  shows "retrieves_sent (handleOptionChange api st b) = []"
    and "updates_sent (handleOptionChange api st b) =
           [(customer_id c,
             (spread (customer_metadata c))(''can_change_password'' \<mapsto> JBool b))]"
  using assms
  by (simp_all add: handleOptionChange_def Let_def updates_sent_append retrieves_sent_append
      split: option.splits sum.splits)

text \<open>
  Claim C1, on an input where the code departs from it. The widget loaded the customer
  when its metadata held an empty list of notes; since then a note was added remotely.
  Setting the option to \<open>false\<close> calls no \<open>retrieve\<close>, and the update it sends carries the
  stale \<open>notes\<close> of the widget's own copy, not the remote ones.
\<close>

theorem C1_handleOptionChange_sends_stale_metadata:
  "retrieves_sent (handleOptionChange
       (customer_remote [''notes'' \<mapsto> JStr (stringify (JArr [note_value ex_note]))])
       (password_loaded [''notes'' \<mapsto> JStr ''[]'']) False) = []
   \<and> map fst (updates_sent (handleOptionChange
       (customer_remote [''notes'' \<mapsto> JStr (stringify (JArr [note_value ex_note]))])
       (password_loaded [''notes'' \<mapsto> JStr ''[]'']) False)) = [''cus_1'']
   \<and> snd (hd (updates_sent (handleOptionChange
       (customer_remote [''notes'' \<mapsto> JStr (stringify (JArr [note_value ex_note]))])
       (password_loaded [''notes'' \<mapsto> JStr ''[]'']) False))) ''notes'' = Some (JStr ''[]'')
   \<and> snd (hd (updates_sent (handleOptionChange
       (customer_remote [''notes'' \<mapsto> JStr (stringify (JArr [note_value ex_note]))])
       (password_loaded [''notes'' \<mapsto> JStr ''[]'']) False))) ''can_change_password''
         = Some (JBool False)
   \<and> stringify (JArr [note_value ex_note]) \<noteq> ''[]''"
  by (simp add: handleOptionChange_def customer_remote_def password_loaded_def ex_customer_def
      spread_def Let_def note_value_def)

section \<open>Encoding and decoding\<close>

text \<open>
  The decimal digits \<open>show_int\<close> writes are read back by \<open>parse_number\<close> as the same
  integer, whatever delimiter follows.
\<close>
lemma of_char_digit_char:
  "0 \<le> d \<Longrightarrow> d < 10 \<Longrightarrow> (of_char (digit_char d) :: int) = 48 + d"
  by (simp add: digit_char_def of_char_of take_bit_eq_mod)

lemma is_digit_digit_char: "0 \<le> d \<Longrightarrow> d < 10 \<Longrightarrow> is_digit (digit_char d)"
  by (simp add: is_digit_def of_char_digit_char)

lemma digit_val_digit_char: "0 \<le> d \<Longrightarrow> d < 10 \<Longrightarrow> digit_val (digit_char d) = d"
  by (simp add: digit_val_def of_char_digit_char)

lemma int_of_digits_snoc: "int_of_digits (ds @ [c]) = 10 * int_of_digits ds + digit_val c"
  by (simp add: int_of_digits_def)

lemma show_digits_digits: "0 \<le> n \<Longrightarrow> list_all is_digit (show_digits n)"
proof (induction n rule: show_digits.induct)
  case (1 n)
  show ?case
  proof (cases "n < 10")
    case True
    with 1(2) show ?thesis by (simp add: show_digits.simps [of n] is_digit_digit_char)
  next
    case False
    then have "list_all is_digit (show_digits (n div 10))" using 1 by simp
    moreover have "is_digit (digit_char (n mod 10))" by (simp add: is_digit_digit_char)
    ultimately show ?thesis using False by (simp add: show_digits.simps [of n])
  qed
qed

lemma show_digits_nonempty: "show_digits n \<noteq> []"
  by (simp add: show_digits.simps [of n])

lemma show_digits_value: "0 \<le> n \<Longrightarrow> int_of_digits (show_digits n) = n"
proof (induction n rule: show_digits.induct)
  case (1 n)
  show ?case
  proof (cases "n < 10")
    case True
    with 1(2) show ?thesis
      by (simp add: show_digits.simps [of n] int_of_digits_def digit_val_digit_char)
  next
    case False
    then have "int_of_digits (show_digits (n div 10)) = n div 10" using 1 by simp
    then show ?thesis using False
      by (simp add: show_digits.simps [of n] int_of_digits_snoc digit_val_digit_char)
  qed
qed

lemma digit_char_zero: "0 \<le> d \<Longrightarrow> d < 10 \<Longrightarrow> digit_char d = CHR ''0'' \<Longrightarrow> d = 0"
proof -
  assume a: "0 \<le> d" "d < 10" "digit_char d = CHR ''0''"
  then have "(of_char (digit_char d) :: int) = of_char (CHR ''0'')" by simp
  with a(1,2) show "d = 0" by (simp add: of_char_digit_char)
qed

lemma show_digits_leading: "0 \<le> n \<Longrightarrow> hd (show_digits n) = CHR ''0'' \<Longrightarrow> n = 0"
proof (induction n rule: show_digits.induct)
  case (1 n)
  show ?case
  proof (cases "n < 10")
    case True
    with 1(2,3) show ?thesis
      by (simp add: show_digits.simps [of n] digit_char_zero)
  next
    case False
    then have "hd (show_digits n) = hd (show_digits (n div 10))"
      by (simp add: show_digits.simps [of n] show_digits_nonempty)
    with 1 False have "n div 10 = 0" by simp
    with False 1(2) show ?thesis by simp
  qed
qed

lemma show_digits_zero: "show_digits 0 = ''0''"
  by (simp add: show_digits.simps [of 0] digit_char_def char_of_eq_iff)


lemma delimited_simps [simp]:
  "delimited []" "delimited (CHR '','' # r)" "delimited (CHR '']'' # r)"
  "delimited (CHR ''}'' # r)"
  by (simp_all add: delimited_def)

lemma delimited_not_digit: "delimited r \<Longrightarrow> r = [] \<or> \<not> is_digit (hd r)"
  by (auto simp: delimited_def is_digit_def)

lemma takeWhile_digits:
  "list_all is_digit ds \<Longrightarrow> r = [] \<or> \<not> is_digit (hd r)
     \<Longrightarrow> takeWhile is_digit (ds @ r) = ds \<and> dropWhile is_digit (ds @ r) = r"
  by (induction ds) (auto simp: takeWhile_eq_Nil_iff dropWhile_eq_self_iff)

lemma hd_digits_not_minus:
  "list_all is_digit ds \<Longrightarrow> ds \<noteq> [] \<Longrightarrow> hd ds \<noteq> CHR ''-''"
  by (cases ds) (auto simp: is_digit_def)

lemma parse_number_digits:
  assumes "0 \<le> n" and "delimited r"
  shows "parse_number (show_digits n @ r) = Some (JNum n, r)"
proof -
  let ?ds = "show_digits n"
  have d: "list_all is_digit ?ds" and ne: "?ds \<noteq> []"
    using assms(1) by (simp_all add: show_digits_digits show_digits_nonempty)
  have tk: "takeWhile is_digit (?ds @ r) = ?ds" "dropWhile is_digit (?ds @ r) = r"
    using takeWhile_digits [OF d delimited_not_digit [OF assms(2)]] by simp_all
  have hdm: "hd (?ds @ r) \<noteq> CHR ''-''"
    using hd_digits_not_minus [OF d ne] ne by simp
  have lead: "\<not> (1 < length ?ds \<and> hd ?ds = CHR ''0'')"
  proof
    assume a: "1 < length ?ds \<and> hd ?ds = CHR ''0''"
    then have "n = 0" using show_digits_leading [OF assms(1)] by simp
    with a show False by (simp add: show_digits_zero)
  qed
  have rest: "\<not> (r \<noteq> [] \<and> hd r \<in> {CHR ''.'', CHR ''e'', CHR ''E''})"
    using assms(2) by (auto simp: delimited_def)
  show ?thesis
    using tk hdm lead rest ne
    by (simp add: parse_number_def Let_def show_digits_value [OF assms(1)])
qed

lemma parse_number_neg_digits:
  assumes "0 \<le> n" and "delimited r"
  shows "parse_number (CHR ''-'' # show_digits n @ r) = Some (JNum (- n), r)"
proof -
  let ?ds = "show_digits n"
  have d: "list_all is_digit ?ds" and ne: "?ds \<noteq> []"
    using assms(1) by (simp_all add: show_digits_digits show_digits_nonempty)
  have tk: "takeWhile is_digit (?ds @ r) = ?ds" "dropWhile is_digit (?ds @ r) = r"
    using takeWhile_digits [OF d delimited_not_digit [OF assms(2)]] by simp_all
  have lead: "\<not> (1 < length ?ds \<and> hd ?ds = CHR ''0'')"
  proof
    assume a: "1 < length ?ds \<and> hd ?ds = CHR ''0''"
    then have "n = 0" using show_digits_leading [OF assms(1)] by simp
    with a show False by (simp add: show_digits_zero)
  qed
  have rest: "\<not> (r \<noteq> [] \<and> hd r \<in> {CHR ''.'', CHR ''e'', CHR ''E''})"
    using assms(2) by (auto simp: delimited_def)
  show ?thesis
    using tk lead rest ne
    by (simp add: parse_number_def Let_def show_digits_value [OF assms(1)])
qed

lemma parse_number_show_int:
  "delimited r \<Longrightarrow> parse_number (show_int i @ r) = Some (JNum i, r)"
  using parse_number_digits [of i r] parse_number_neg_digits [of "- i" r]
  by (simp add: show_int_def)

lemma show_int_head:
  "\<exists>c cs. show_int i = c # cs \<and> (c = CHR ''-'' \<or> is_digit c)"
proof (cases "i < 0")
  case True
  then show ?thesis by (simp add: show_int_def)
next
  case False
  then have "list_all is_digit (show_digits i)" by (simp add: show_digits_digits)
  moreover obtain c cs where "show_digits i = c # cs"
    using show_digits_nonempty [of i] by (cases "show_digits i") auto
  ultimately show ?thesis using False by (simp add: show_int_def)
qed


lemma hex_val_hex_char: "0 \<le> d \<Longrightarrow> d < 16 \<Longrightarrow> hex_val (hex_char d) = Some d"
  by (simp add: hex_val_def hex_char_def Let_def take_bit_eq_mod)

lemma hex_val_zero: "hex_val (CHR ''0'') = Some 0"
  by (simp add: hex_val_def)

lemma char_of_of_char_int: "char_of (of_char c :: int) = c"
  by simp

lemma parse_chars_control:
  assumes "(of_char c :: int) < 32"
  shows "parse_chars (CHR 0x5C # CHR ''u'' # CHR ''0'' # CHR ''0''
            # hex_char (of_char c div 16) # hex_char (of_char c mod 16) # t)
         = cons_char c (parse_chars t)"
proof -
  let ?n = "of_char c :: int"
  have n0: "0 \<le> ?n" by (cases c) simp
  have h1: "hex_val (hex_char (?n div 16)) = Some (?n div 16)"
    using assms n0 by (intro hex_val_hex_char) auto
  have h2: "hex_val (hex_char (?n mod 16)) = Some (?n mod 16)"
    by (intro hex_val_hex_char) auto
  have dec: "char_of (16 * (?n div 16) + ?n mod 16) = c"
    by (simp only: mult_div_mod_eq char_of_of_char_int)
  show ?thesis
    by (simp add: h1 h2 hex_val_zero dec)
qed

lemma parse_chars_escape: "parse_chars (escape_char c @ t) = cons_char c (parse_chars t)"
proof -
  consider (named) "c \<in> {CHR 0x22, CHR 0x5C, CHR 0x08, CHR 0x0C, CHR 0x0A, CHR 0x0D, CHR 0x09}"
    | (control) "c \<notin> {CHR 0x22, CHR 0x5C, CHR 0x08, CHR 0x0C, CHR 0x0A, CHR 0x0D, CHR 0x09}"
        "(of_char c :: int) < 32"
    | (plain) "c \<notin> {CHR 0x22, CHR 0x5C, CHR 0x08, CHR 0x0C, CHR 0x0A, CHR 0x0D, CHR 0x09}"
        "\<not> (of_char c :: int) < 32"
    by blast
  then show ?thesis
  proof cases
    case named
    then show ?thesis by (auto simp: escape_char_def unescape_def)
  next
    case control
    then show ?thesis using parse_chars_control [OF control(2), of t]
      by (simp add: escape_char_def)
  next
    case plain
    then show ?thesis by (simp add: escape_char_def)
  qed
qed

lemma parse_chars_body:
  "parse_chars (concat (map escape_char s) @ CHR 0x22 # r) = Some (s, r)"
  by (induction s) (simp_all add: parse_chars_escape cons_char_def)

lemma parse_chars_quote: "parse_chars (tl (quote s) @ r) = Some (s, r)"
  using parse_chars_body [of s r] by (simp add: quote_def)

lemma quote_head: "quote s = CHR 0x22 # tl (quote s)"
  by (simp add: quote_def)


lemma define_props_append:
  "distinct (map fst (acc @ kvs)) \<Longrightarrow> list_all (\<lambda>kv. \<not> is_index (fst kv)) kvs
     \<Longrightarrow> foldl (\<lambda>obj (k, v). define_prop k v obj) acc kvs = acc @ kvs"
proof (induction kvs arbitrary: acc)
  case Nil
  then show ?case by simp
next
  case (Cons kv kvs)
  obtain k v where kv: "kv = (k, v)" by (cases kv)
  have "define_prop k v acc = acc @ [(k, v)]"
    using Cons.prems kv by (auto simp: define_prop_def)
  moreover have "distinct (map fst ((acc @ [(k, v)]) @ kvs))"
    using Cons.prems kv by auto
  moreover have "list_all (\<lambda>kv. \<not> is_index (fst kv)) kvs"
    using Cons.prems by simp
  ultimately show ?case using Cons.IH [of "acc @ [(k, v)]"] kv by simp
qed

lemma object_of_simple:
  "distinct (map fst kvs) \<Longrightarrow> list_all (\<lambda>kv. \<not> is_index (fst kv)) kvs \<Longrightarrow> object_of kvs = kvs"
  using define_props_append [of "[]" kvs] by (simp add: object_of_def)

lemma skip_ws_Cons: "\<not> is_ws c \<Longrightarrow> skip_ws (c # cs) = c # cs"
  by (simp add: skip_ws_def)

lemma is_digit_not_special:
  "is_digit c \<Longrightarrow> \<not> is_ws c \<and> c \<noteq> CHR ''['' \<and> c \<noteq> CHR '']'' \<and> c \<noteq> CHR ''{''
     \<and> c \<noteq> CHR ''}'' \<and> c \<noteq> CHR 0x22"
  by (auto simp: is_digit_def is_ws_def)

lemma stringify_head:
  "\<exists>c cs. stringify v = c # cs \<and> \<not> is_ws c \<and> c \<noteq> CHR '']'' \<and> c \<noteq> CHR ''}''"
proof (cases v)
  case (JNum i)
  then show ?thesis using show_int_head [of i] is_digit_not_special
    by (auto simp: is_ws_def)
qed (auto simp: is_ws_def quote_def)


lemma stringify_elems_head:
  "xs \<noteq> [] \<Longrightarrow> \<exists>c cs. stringify_elems xs = c # cs \<and> \<not> is_ws c \<and> c \<noteq> CHR '']''"
proof (cases xs)
  case (Cons x xs')
  obtain c cs where "stringify x = c # cs" "\<not> is_ws c" "c \<noteq> CHR '']''"
    using stringify_head [of x] by auto
  then show ?thesis using Cons by simp
qed simp

lemma stringify_members_head:
  "kvs \<noteq> [] \<Longrightarrow> \<exists>cs. stringify_members kvs = CHR 0x22 # cs"
  by (cases kvs) (auto simp: quote_def)

lemma stringify_length: "0 < length (stringify v)"
  using stringify_head [of v] by auto

lemma parse_stringify:
  "simple_value v \<Longrightarrow> delimited r \<Longrightarrow> length (stringify v) \<le> n
     \<Longrightarrow> parse_value n (stringify v @ r) = Some (v, r)"
  "xs \<noteq> [] \<Longrightarrow> list_all simple_value xs \<Longrightarrow> length (stringify_elems xs) < n
     \<Longrightarrow> parse_elems n (stringify_elems xs @ CHR '']'' # r) = Some (xs, r)"
  "kvs \<noteq> [] \<Longrightarrow> list_all (\<lambda>kv. simple_value (snd kv)) kvs
     \<Longrightarrow> length (stringify_members kvs) < n
     \<Longrightarrow> parse_members n (stringify_members kvs @ CHR ''}'' # r) = Some (kvs, r)"
proof (induction v and xs and kvs arbitrary: n r and n r and n r
    rule: stringify_stringify_elems_stringify_members.induct)
  case 1
  then obtain n' where "n = Suc n'" by (cases n) auto
  then show ?case by (simp add: skip_ws_def is_ws_def is_digit_def expect_def)
next
  case (2 b)
  then obtain n' where "n = Suc n'" by (cases n) (auto split: if_splits)
  then show ?case by (simp add: skip_ws_def is_ws_def is_digit_def expect_def)
next
  case (3 i)
  obtain c cs where cs: "show_int i = c # cs" "c = CHR ''-'' \<or> is_digit c"
    using show_int_head [of i] by auto
  then have sp: "\<not> is_ws c" "c \<noteq> CHR ''[''" "c \<noteq> CHR ''{''" "c \<noteq> CHR 0x22"
    using is_digit_not_special [of c] by (auto simp: is_ws_def)
  from 3 cs obtain n' where n: "n = Suc n'" by (cases n) auto
  have "parse_value n (stringify (JNum i) @ r) = parse_number (show_int i @ r)"
    using cs sp by (simp add: n skip_ws_Cons)
  then show ?case using parse_number_show_int [OF 3(2)] by simp
next
  case (4 s)
  then obtain n' where n: "n = Suc n'" by (cases n) (auto simp: quote_def)
  have "stringify (JStr s) @ r = CHR 0x22 # tl (quote s) @ r"
    using quote_head [of s] by simp
  then show ?case
    by (simp add: n skip_ws_def is_ws_def parse_chars_quote del: stringify.simps)
next
  case (5 xs)
  then obtain n' where n: "n = Suc n'" by (cases n) auto
  show ?case
  proof (cases "xs = []")
    case True
    then show ?thesis by (simp add: n skip_ws_def is_ws_def)
  next
    case False
    obtain c cs where cs: "stringify_elems xs = c # cs" "\<not> is_ws c" "c \<noteq> CHR '']''"
      using stringify_elems_head [OF False] by auto
    have len: "length (stringify_elems xs) < n'" using 5(4) n by simp
    have el: "parse_elems n' (stringify_elems xs @ CHR '']'' # r) = Some (xs, r)"
      using 5(1) [OF False _ len] 5(2) by simp
    have "parse_value (Suc n') (CHR ''['' # (stringify_elems xs @ CHR '']'' # r)) = Some (JArr xs, r)"
      using cs el by (simp add: skip_ws_Cons is_ws_def)
    then show ?thesis by (simp add: n)
  qed
next
  case (6 kvs)
  then obtain n' where n: "n = Suc n'" by (cases n) auto
  show ?case
  proof (cases "kvs = []")
    case True
    then show ?thesis by (simp add: n skip_ws_def is_ws_def object_of_def)
  next
    case False
    obtain cs where cs: "stringify_members kvs = CHR 0x22 # cs"
      using stringify_members_head [OF False] by auto
    have len: "length (stringify_members kvs) < n'" using 6(4) n by simp
    have vals: "list_all (\<lambda>kv. simple_value (snd kv)) kvs"
      using 6(2) by (simp add: list_all_iff)
    have keys: "distinct (map fst kvs)" "list_all (\<lambda>kv. \<not> is_index (fst kv)) kvs"
      using 6(2) by (simp_all add: list_all_iff)
    have ms: "parse_members n' (stringify_members kvs @ CHR ''}'' # r) = Some (kvs, r)"
      using 6(1) [OF False vals len] .
    have "parse_value (Suc n') (CHR ''{'' # (stringify_members kvs @ CHR ''}'' # r))
            = Some (JObj kvs, r)"
      using cs ms by (simp add: skip_ws_Cons is_ws_def object_of_simple [OF keys])
    then show ?thesis by (simp add: n)
  qed
next
  case 7
  then show ?case by simp
next
  case (8 x xs)
  then obtain n' where n: "n = Suc n'" by (cases n) auto
  let ?tail = "(if xs = [] then [] else CHR '','' # stringify_elems xs) @ CHR '']'' # r"
  have shape: "stringify_elems (x # xs) @ CHR '']'' # r = stringify x @ ?tail" by simp
  have sx: "simple_value x" and sxs: "list_all simple_value xs" using 8(4) by simp_all
  have lx: "length (stringify x) \<le> n'" using 8(5) n by (simp split: if_splits)
  have dl: "delimited ?tail" by simp
  have pv: "parse_value n' (stringify x @ ?tail) = Some (x, ?tail)"
    using 8(1) [OF sx dl lx] .
  show ?case
  proof (cases "xs = []")
    case True
    then show ?thesis using pv by (simp add: n skip_ws_def is_ws_def)
  next
    case False
    have "length (stringify_elems xs) < n'"
      using 8(5) n False stringify_length [of x] by simp
    then have "parse_elems n' (stringify_elems xs @ CHR '']'' # r) = Some (xs, r)"
      using 8(2) [OF False False sxs] by simp
    then show ?thesis using pv False by (simp add: n skip_ws_def is_ws_def)
  qed
next
  case 9
  then show ?case by simp
next
  case (10 k v kvs)
  then obtain n' where n: "n = Suc n'" by (cases n) auto
  let ?tail = "(if kvs = [] then [] else CHR '','' # stringify_members kvs) @ CHR ''}'' # r"
  have shape: "stringify_members ((k, v) # kvs) @ CHR ''}'' # r
               = CHR 0x22 # tl (quote k) @ CHR '':'' # stringify v @ ?tail"
    using quote_head [of k] by simp
  have sv: "simple_value v" and svs: "list_all (\<lambda>kv. simple_value (snd kv)) kvs"
    using 10(4) by simp_all
  have lv: "length (stringify v) \<le> n'" using 10(5) n by (simp split: if_splits)
  have dl: "delimited ?tail" by simp
  have pv: "parse_value n' (stringify v @ ?tail) = Some (v, ?tail)"
    using 10(1) [OF sv dl lv] .
  have key: "parse_chars (tl (quote k) @ CHR '':'' # stringify v @ ?tail)
               = Some (k, CHR '':'' # stringify v @ ?tail)"
    using parse_chars_quote [of k] by simp
  show ?case
  proof (cases "kvs = []")
    case True
    then show ?thesis using pv key unfolding shape
      by (simp add: n skip_ws_def is_ws_def)
  next
    case False
    have "length (stringify_members kvs) < n'"
      using 10(5) n False stringify_length [of v] by (simp add: quote_def)
    then have "parse_members n' (stringify_members kvs @ CHR ''}'' # r) = Some (kvs, r)"
      using 10(2) [OF False False svs] by simp
    then show ?thesis using pv key False unfolding shape
      by (simp add: n skip_ws_def is_ws_def)
  qed
qed

lemma parse_text_stringify: "simple_value v \<Longrightarrow> parse_text (stringify v) = Some v"
  using parse_stringify(1) [of v "[]" "length (stringify v)"]
  by (simp add: parse_text_def skip_ws_def)

lemma simple_note_value: "simple_value (note_value n)"
  by (cases "lastEdited n") (simp_all add: note_value_def is_index_def is_digit_def)

lemma simple_quicklink_value: "simple_value (quicklink_value q)"
  by (simp add: quicklink_value_def is_index_def is_digit_def)

lemma stringify_array_truthy: "truthy (JStr (stringify (JArr xs)))"
  by simp

text \<open>
  Claim C8. For every list of notes with safe-integer ids and every list of quicklinks,
  \<open>JSON.parse\<close> of the \<open>JSON.stringify\<close> of the list of their objects returns that list: it
  does not throw, and the value is an array equal to the list. So the field written by
  a write-back, when it is loaded again, sets the list of the widget to the list that
  was written.
\<close>

theorem C8_encode_decode_round_trip:
  assumes "list_all valid_note ns"
  shows "JSON_parse (js_runtime now t)
           (JStr (JSON_stringify (js_runtime now t) (JArr (map note_value ns))))
         = Inr (JArr (map note_value ns))
       \<and> parse_notes (js_runtime now t)
           (Some (JStr (JSON_stringify (js_runtime now t) (JArr (map note_value ns)))))
         = [SetState (SetNotes (map note_value ns))]
       \<and> JSON_parse (js_runtime now t)
           (JStr (JSON_stringify (js_runtime now t) (JArr (map quicklink_value qs))))
         = Inr (JArr (map quicklink_value qs))
       \<and> parse_quicklinks (js_runtime now t)
           (Some (JStr (JSON_stringify (js_runtime now t) (JArr (map quicklink_value qs)))))
         = [SetState (SetQuicklinks (map quicklink_value qs))]"
proof -
  have sn: "simple_value (JArr (map note_value ns))"
    by (simp add: list_all_iff simple_note_value)
  have sq: "simple_value (JArr (map quicklink_value qs))"
    by (simp add: list_all_iff simple_quicklink_value)
  have n: "JSON_parse (js_runtime now t)
             (JStr (JSON_stringify (js_runtime now t) (JArr (map note_value ns))))
           = Inr (JArr (map note_value ns))"
    using parse_text_stringify [OF sn] by (simp add: js_runtime_def del: stringify.simps)
  have q: "JSON_parse (js_runtime now t)
             (JStr (JSON_stringify (js_runtime now t) (JArr (map quicklink_value qs))))
           = Inr (JArr (map quicklink_value qs))"
    using parse_text_stringify [OF sq] by (simp add: js_runtime_def del: stringify.simps)
  have tn: "truthy (JStr (JSON_stringify (js_runtime now t) (JArr (map note_value ns))))"
    using stringify_array_truthy by (simp add: js_runtime_def del: stringify.simps)
  have tq: "truthy (JStr (JSON_stringify (js_runtime now t) (JArr (map quicklink_value qs))))"
    using stringify_array_truthy by (simp add: js_runtime_def del: stringify.simps)
  show ?thesis
    using n q tn tq by (simp add: parse_notes_def parse_quicklinks_def del: stringify.simps truthy.simps)
qed

theorem C8_encode_decode_round_trip_witness:
  "list_all valid_note [ex_note, ex_note\<lparr>note_id := 1700000000000,
       content := [CHR ''a'', CHR 0x22, CHR 0x5C, CHR 0x0A, CHR 0x01, CHR ''b''],
       lastEdited := Some ''2023-11-14T22:13:20.000Z''\<rparr>]
   \<and> JSON_parse ex_runtime
        (JStr (stringify (JArr (map note_value [ex_note, ex_note\<lparr>note_id := 1700000000000,
           content := [CHR ''a'', CHR 0x22, CHR 0x5C, CHR 0x0A, CHR 0x01, CHR ''b''],
           lastEdited := Some ''2023-11-14T22:13:20.000Z''\<rparr>]))))
       = Inr (JArr (map note_value [ex_note, ex_note\<lparr>note_id := 1700000000000,
           content := [CHR ''a'', CHR 0x22, CHR 0x5C, CHR 0x0A, CHR 0x01, CHR ''b''],
           lastEdited := Some ''2023-11-14T22:13:20.000Z''\<rparr>]))
   \<and> JSON_parse ex_runtime (JStr (stringify (JArr (map quicklink_value [ex_quicklink]))))
       = Inr (JArr (map quicklink_value [ex_quicklink]))"
proof -
  have h: "list_all valid_note [ex_note, ex_note\<lparr>note_id := 1700000000000,
       content := [CHR ''a'', CHR 0x22, CHR 0x5C, CHR 0x0A, CHR 0x01, CHR ''b''],
       lastEdited := Some ''2023-11-14T22:13:20.000Z''\<rparr>]"
    by (simp add: valid_note_def ex_note_def)
  have st: "JSON_stringify ex_runtime = stringify"
    by (simp add: ex_runtime_def js_runtime_def)
  show ?thesis
    using h C8_encode_decode_round_trip [OF h, of 1700000000000 "''2023-11-14T22:13:20.000Z''"
        "[ex_quicklink]"]
    unfolding ex_runtime_def [symmetric] st
    by (simp del: stringify.simps)
qed

end
